theory Spec2Isabelle
  imports Main
begin

section \<open>JavaScript strings and numbers\<close>

text \<open>
  The chatbot screens work on JavaScript strings. A string is modelled as a \<open>char list\<close>
  whose elements are the code units \<open>0x00\<close> to \<open>0xFF\<close>; \<open>length\<close> is the
  \<^verbatim>\<open>.length\<close> of the source. Of the characters that \<^verbatim>\<open>String.prototype.trim\<close> and
  \<^verbatim>\<open>parseInt\<close> treat as white space or line terminators, these seven lie in that range:
  TAB, LF, VT, FF, CR, SPACE and NO-BREAK SPACE.
\<close>

definition isWhiteSpace :: "char \<Rightarrow> bool" where
  "isWhiteSpace c \<longleftrightarrow>
     c \<in> {CHR 0x09, CHR 0x0A, CHR 0x0B, CHR 0x0C, CHR 0x0D, CHR 0x20, CHR 0xA0}"

definition trimStart :: "string \<Rightarrow> string" where
  "trimStart s = dropWhile isWhiteSpace s"

definition trimEnd :: "string \<Rightarrow> string" where
  "trimEnd s = rev (dropWhile isWhiteSpace (rev s))"

definition trim :: "string \<Rightarrow> string" where
  "trim s = trimEnd (trimStart s)"

text \<open>
  \<^verbatim>\<open>s.split(',')\<close>: the pieces between the separators, in order; a string without a
  separator (the empty string too) gives one piece.
\<close>

fun split :: "char \<Rightarrow> string \<Rightarrow> string list" where
  "split sep [] = [[]]"
| "split sep (c # cs) =
     (if c = sep then [] # split sep cs
      else (case split sep cs of
              [] \<Rightarrow> [[c]]
            | p # ps \<Rightarrow> (c # p) # ps))"

text \<open>
  A JavaScript number as far as the chat needs it: \<^verbatim>\<open>NaN\<close> or an integer. \<^verbatim>\<open>parseInt\<close>
  computes \<open>sign \<times> mathInt\<close> and returns the nearest double. The model keeps the
  mathematical integer: the rounding is monotone and leaves the integers of the slot ranges
  (at most 50) as they are, so no range test below is affected; \<open>-0\<close> is \<open>Num 0\<close>.
\<close>

datatype number = NaN | Num int

definition digitVal :: "char \<Rightarrow> nat option" where
  "digitVal c =
     (let n = (of_char c :: nat) in
      if 48 \<le> n \<and> n \<le> 57 then Some (n - 48)
      else if 97 \<le> n \<and> n \<le> 122 then Some (n - 87)
      else if 65 \<le> n \<and> n \<le> 90 then Some (n - 55)
      else None)"

definition isRadixDigit :: "nat \<Rightarrow> char \<Rightarrow> bool" where
  "isRadixDigit R c = (case digitVal c of None \<Rightarrow> False | Some d \<Rightarrow> d < R)"

definition mathInt :: "nat \<Rightarrow> string \<Rightarrow> nat" where
  "mathInt R Z = foldl (\<lambda>a c. a * R + (case digitVal c of None \<Rightarrow> 0 | Some d \<Rightarrow> d)) 0 Z"

text \<open>
  \<^verbatim>\<open>parseInt(string)\<close> with no radix argument, step by step as ECMAScript gives it: strip
  leading white space, read a sign, switch to radix 16 after \<^verbatim>\<open>0x\<close> or \<^verbatim>\<open>0X\<close>, take the
  longest prefix of digits of the radix, and answer \<^verbatim>\<open>NaN\<close> when that prefix is empty.
  Whatever follows the digits is ignored.
\<close>

definition parseInt :: "string \<Rightarrow> number" where
  "parseInt inputString =
     (let S = trimStart inputString;
          sign = (if S \<noteq> [] \<and> hd S = CHR ''-'' then - 1 else (1 :: int));
          S1 = (if S \<noteq> [] \<and> (hd S = CHR ''+'' \<or> hd S = CHR ''-'') then tl S else S);
          hex = (take 2 S1 = ''0x'' \<or> take 2 S1 = ''0X'');
          R = (if hex then 16 else 10);
          S2 = (if hex then drop 2 S1 else S1);
          Z = takeWhile (isRadixDigit R) S2
      in if Z = [] then NaN else Num (sign * int (mathInt R Z)))"

text \<open>
  \<^verbatim>\<open>n.toString()\<close> and \<^verbatim>\<open>${n}\<close> for a non-negative integer (below \<open>10\<^sup>2\<^sup>1\<close>, where
  JavaScript changes to exponent notation): its decimal digits.
\<close>

definition digitChar :: "nat \<Rightarrow> char" where
  "digitChar d = ''0123456789'' ! (d mod 10)"

fun decimal :: "nat \<Rightarrow> string" where
  "decimal n =
     (if n < 10 then [digitChar n]
      else decimal (n div 10) @ [digitChar (n mod 10)])"

declare decimal.simps [simp del]

text \<open>
  \<^verbatim>\<open>xs.slice(0, end)\<close>: an \<open>end\<close> that is \<^verbatim>\<open>undefined\<close> means the whole array,
  \<^verbatim>\<open>NaN\<close> counts as 0, a negative \<open>end\<close> counts from the back, and the result never
  reaches past the array.
\<close>

definition slice0 :: "'a list \<Rightarrow> number option \<Rightarrow> 'a list" where
  "slice0 xs end =
     (case end of
        None \<Rightarrow> xs
      | Some NaN \<Rightarrow> []
      | Some (Num e) \<Rightarrow>
          (if e < 0 then take (nat (max (int (length xs) + e) 0)) xs
           else take (nat (min e (int (length xs)))) xs))"

section \<open>Messages, effects and the shared state\<close>

datatype sender = Bot | User

record ChatMessage =
  msg_id :: string
  msg_type :: sender
  content :: string
  timestamp :: nat
  questionIndex :: "nat option"

text \<open>The accumulator of the seven-question screen (\<^verbatim>\<open>Partial<UserData>\<close>).\<close>

record UserData7 =
  name :: "string option"
  jobRole :: "string option"
  skills :: "string list option"
  jobLevel :: "number option"
  certificationLevel :: "string option"
  proficiencyLevel :: "string option"
  profileCount :: "number option"

text \<open>
  What a handler does besides changing the state: toasts, console output, timers it starts
  and the POST to the matching backend. A timer names the continuation it will run.
\<close>

datatype callback =
    AskQuestion nat
  | AppendQuestion nat
  | InitializeChat
  | ResumeSubmit

datatype effect =
    ToastSuccess string
  | ToastError string
  | ConsoleLog string
  | ConsoleWarn string
  | ConsoleError string
  | SetTimeout callback nat
  | FetchPost UserData7

record ('u, 'm) ChatState =
  messages :: "ChatMessage list"
  currentInput :: string
  currentQuestionIndex :: nat
  isTyping :: bool
  userData :: 'u
  isComplete :: bool
  matches :: 'm
  isLoading :: bool
  editingMessageId :: "string option"
  editValue :: string

section \<open>The seven-question screen\<close>

record MatchProfile7 =
  mp_id :: string
  mp_name :: string
  mp_email :: string
  mp_experience :: string
  mp_img :: string
  mp_proficiency :: string
  mp_jobLevel :: int
  mp_skills :: "string list"

text \<open>
  What \<^verbatim>\<open>response.json()\<close> may hand back and \<^verbatim>\<open>setMatches\<close> then stores: an array of
  profiles, as the declared type says, or JSON \<^verbatim>\<open>null\<close>, the one value whose
  \<^verbatim>\<open>.length\<close> throws. Other JSON shapes are not modelled.
\<close>

datatype match_data = Null | Profiles "MatchProfile7 list"

datatype thrown = FetchRejected | HttpError | JsonRejected | TypeError

text \<open>How the \<^verbatim>\<open>fetch\<close> settles: rejected, or a response with its \<^verbatim>\<open>ok\<close> flag and the
  parsed body (\<open>None\<close> when the body is not JSON).\<close>

datatype fetch_outcome = NetworkError | Response bool "match_data option"

record State7 = "(UserData7, match_data) ChatState" +
  showOptions :: bool

definition questions7 :: "string list" where
  "questions7 =
     [''What is your name?'',
      ''What is your current job role?'',
      ''What are your key skills? (Please list them separated by commas)'',
      ''Select your job level (1-9):'',
      ''Select your certification level:'',
      ''Select your proficiency level:'',
      ''Select profile count (1-5):'']"

definition certificationOptions :: "string list" where
  "certificationOptions = [''None'', ''Beginner'', ''Intermediate'', ''Professional'']"

definition proficiencyOptions :: "string list" where
  "proficiencyOptions = [''Beginner'', ''Intermediate'', ''Professional'']"

definition submitProfileData :: "fetch_outcome \<Rightarrow> effect list \<times> (thrown + match_data)" where
  "submitProfileData outcome =
     (let r = (case outcome of
                 NetworkError \<Rightarrow> Inl FetchRejected
               | Response ok body \<Rightarrow>
                   (if \<not> ok then Inl HttpError
                    else (case body of None \<Rightarrow> Inl JsonRejected | Some d \<Rightarrow> Inr d)))
      in (case r of
            Inl e \<Rightarrow> ([ConsoleError ''Error submitting profile data:''], Inl e)
          | Inr d \<Rightarrow> ([], Inr d)))"

definition initialMessage7 :: "nat \<Rightarrow> ChatMessage" where
  "initialMessage7 now =
     \<lparr>msg_id = ''1'', msg_type = Bot,
      content = ''Hi! I'm here to help you find the perfect job match. Let's start with a few questions to build your profile.'',
      timestamp = now, questionIndex = None\<rparr>"

definition initializeChat7 :: "nat \<Rightarrow> State7 \<Rightarrow> State7 \<times> effect list" where
  "initializeChat7 now s =
     (s\<lparr>messages := [initialMessage7 now]\<rparr>, [SetTimeout (AskQuestion 0) 1500])"

definition startOver7 :: "State7 \<Rightarrow> State7 \<times> effect list" where
  "startOver7 s =
     (s\<lparr>messages := [], currentInput := [], currentQuestionIndex := 0, isTyping := False,
        userData := \<lparr>name = None, jobRole = None, skills = None, jobLevel = None,
                      certificationLevel = None, proficiencyLevel = None, profileCount = None\<rparr>,
        isComplete := False, matches := Profiles [], isLoading := False,
        editingMessageId := None, editValue := [], showOptions := False\<rparr>,
      [SetTimeout InitializeChat 500, ToastSuccess ''Chat restarted!''])"

definition askQuestion7 :: "nat \<Rightarrow> State7 \<Rightarrow> State7 \<times> effect list" where
  "askQuestion7 i s =
     (if i \<ge> length questions7 then (s, [])
      else (s\<lparr>isTyping := True\<rparr>, [SetTimeout (AppendQuestion i) 1000]))"

text \<open>The timer that \<open>askQuestion7\<close> starts; it is only started for \<open>i < length questions7\<close>.\<close>

definition appendQuestion7 :: "nat \<Rightarrow> nat \<Rightarrow> State7 \<Rightarrow> State7" where
  "appendQuestion7 now i s =
     s\<lparr>messages := messages s @
          [\<lparr>msg_id = decimal now, msg_type = Bot, content = questions7 ! i,
            timestamp = now, questionIndex = None\<rparr>],
       isTyping := False,
       showOptions := (i = 4 \<or> i = 5)\<rparr>"

definition validateResponse7 :: "string \<Rightarrow> nat \<Rightarrow> bool" where
  "validateResponse7 response i =
     (let trimmed = trim response in
      if i = 0 then length trimmed \<ge> 2
      else if i = 1 then length trimmed \<ge> 2
      else if i = 2 then length trimmed > 0
      else if i = 3 then
        (case parseInt trimmed of NaN \<Rightarrow> False | Num level \<Rightarrow> level \<ge> 1 \<and> level \<le> 9)
      else if i = 4 then trimmed \<in> set certificationOptions
      else if i = 5 then trimmed \<in> set proficiencyOptions
      else if i = 6 then
        (case parseInt trimmed of NaN \<Rightarrow> False | Num count \<Rightarrow> count \<ge> 1 \<and> count \<le> 5)
      else True)"

definition processResponse7 :: "UserData7 \<Rightarrow> string \<Rightarrow> nat \<Rightarrow> UserData7" where
  "processResponse7 newUserData response i =
     (if i = 0 then newUserData\<lparr>name := Some (trim response)\<rparr>
      else if i = 1 then newUserData\<lparr>jobRole := Some (trim response)\<rparr>
      else if i = 2 then
        newUserData\<lparr>skills := Some (filter (\<lambda>skill. skill \<noteq> []) (map trim (split CHR '','' response)))\<rparr>
      else if i = 3 then newUserData\<lparr>jobLevel := Some (parseInt (trim response))\<rparr>
      else if i = 4 then newUserData\<lparr>certificationLevel := Some (trim response)\<rparr>
      else if i = 5 then newUserData\<lparr>proficiencyLevel := Some (trim response)\<rparr>
      else if i = 6 then newUserData\<lparr>profileCount := Some (parseInt (trim response))\<rparr>
      else newUserData)"

definition handleOptionSelect7 :: "string \<Rightarrow> State7 \<Rightarrow> State7" where
  "handleOptionSelect7 option s = s\<lparr>currentInput := option, showOptions := False\<rparr>"

definition handleEdit7 :: "string \<Rightarrow> string \<Rightarrow> State7 \<Rightarrow> State7" where
  "handleEdit7 messageId currentContent s =
     s\<lparr>editingMessageId := Some messageId, editValue := currentContent\<rparr>"

definition cancelEdit7 :: "State7 \<Rightarrow> State7" where
  "cancelEdit7 s = s\<lparr>editingMessageId := None, editValue := []\<rparr>"

definition saveEdit7 :: "string \<Rightarrow> nat option \<Rightarrow> State7 \<Rightarrow> State7 \<times> effect list" where
  "saveEdit7 messageId qi s =
     (if trim (editValue s) = [] then (s, [ToastError ''Please provide a valid response''])
      else if qi \<noteq> None \<and> \<not> validateResponse7 (editValue s) (the qi) then
        (s, [ToastError ''Please provide a valid response''])
      else
        (s\<lparr>messages :=
             map (\<lambda>msg. if msg_id msg = messageId then msg\<lparr>content := editValue s\<rparr> else msg)
               (messages s),
           userData :=
             (case qi of
                None \<Rightarrow> userData s
              | Some i \<Rightarrow> processResponse7 (userData s) (editValue s) i),
           editingMessageId := None,
           editValue := []\<rparr>,
         [ToastSuccess ''Response updated!'']))"

definition mockSkillsPool :: "string list list" where
  "mockSkillsPool =
     [[''React'', ''JavaScript'', ''TypeScript''],
      [''Python'', ''Django'', ''PostgreSQL''],
      [''Node.js'', ''Express'', ''MongoDB''],
      [''Java'', ''Spring Boot'', ''MySQL''],
      [''Vue.js'', ''Nuxt.js'', ''CSS''],
      [''Angular'', ''RxJS'', ''NgRx''],
      [''PHP'', ''Laravel'', ''Redis''],
      [''Go'', ''Docker'', ''Kubernetes'']]"

definition mockProfiles7 :: "MatchProfile7 list" where
  "mockProfiles7 =
     [\<lparr>mp_id = ''1'', mp_name = ''Sarah Johnson'', mp_email = ''sarah.johnson@example.com'',
       mp_experience = ''5 years'',
       mp_img = ''https://images.pexels.com/photos/2379004/pexels-photo-2379004.jpeg?auto=compress&cs=tinysrgb&w=150&h=150&fit=crop'',
       mp_proficiency = ''Professional'', mp_jobLevel = 7, mp_skills = mockSkillsPool ! 0\<rparr>,
      \<lparr>mp_id = ''2'', mp_name = ''Michael Chen'', mp_email = ''michael.chen@example.com'',
       mp_experience = ''7 years'',
       mp_img = ''https://images.pexels.com/photos/1222271/pexels-photo-1222271.jpeg?auto=compress&cs=tinysrgb&w=150&h=150&fit=crop'',
       mp_proficiency = ''Professional'', mp_jobLevel = 8, mp_skills = mockSkillsPool ! 1\<rparr>,
      \<lparr>mp_id = ''3'', mp_name = ''Emily Rodriguez'', mp_email = ''emily.rodriguez@example.com'',
       mp_experience = ''4 years'',
       mp_img = ''https://images.pexels.com/photos/1239291/pexels-photo-1239291.jpeg?auto=compress&cs=tinysrgb&w=150&h=150&fit=crop'',
       mp_proficiency = ''Intermediate'', mp_jobLevel = 6, mp_skills = mockSkillsPool ! 2\<rparr>,
      \<lparr>mp_id = ''4'', mp_name = ''David Kim'', mp_email = ''david.kim@example.com'',
       mp_experience = ''6 years'',
       mp_img = ''https://images.pexels.com/photos/1043471/pexels-photo-1043471.jpeg?auto=compress&cs=tinysrgb&w=150&h=150&fit=crop'',
       mp_proficiency = ''Professional'', mp_jobLevel = 7, mp_skills = mockSkillsPool ! 3\<rparr>,
      \<lparr>mp_id = ''5'', mp_name = ''Lisa Wang'', mp_email = ''lisa.wang@example.com'',
       mp_experience = ''3 years'',
       mp_img = ''https://images.pexels.com/photos/1181686/pexels-photo-1181686.jpeg?auto=compress&cs=tinysrgb&w=150&h=150&fit=crop'',
       mp_proficiency = ''Intermediate'', mp_jobLevel = 5, mp_skills = mockSkillsPool ! 4\<rparr>]"

text \<open>\<^verbatim>\<open>matchedProfiles.length\<close>: a \<^verbatim>\<open>TypeError\<close> on \<^verbatim>\<open>null\<close>.\<close>

definition lengthOf :: "match_data \<Rightarrow> thrown + nat" where
  "lengthOf d = (case d of Null \<Rightarrow> Inl TypeError | Profiles ps \<Rightarrow> Inr (length ps))"

definition successMessage7 :: "nat \<Rightarrow> nat \<Rightarrow> ChatMessage" where
  "successMessage7 now n =
     \<lparr>msg_id = decimal now, msg_type = Bot,
      content = ''Perfect! Based on your profile, I found '' @ decimal n @
        '' potential matches. Here are professionals who might be great connections for you:'',
      timestamp = now, questionIndex = None\<rparr>"

text \<open>
  \<^verbatim>\<open>submitUserData\<close> is asynchronous. \<open>submitUserData7_start\<close> is what runs before the
  first \<^verbatim>\<open>await\<close>: the loading flag and the POST. \<open>submitUserData7_settle\<close> is the rest,
  run on the state of that later moment once the POST has settled (and, after a failure,
  the pause of 2000 ms is over): the inner \<^verbatim>\<open>try\<close>/\<^verbatim>\<open>catch\<close> with the fallback to the
  sample profiles, then \<^verbatim>\<open>setMatches\<close>, the confirmation message and the toast inside the
  outer \<^verbatim>\<open>try\<close>, whose \<^verbatim>\<open>catch\<close> reports anything thrown there, and the
  \<^verbatim>\<open>finally\<close> that clears the loading flag.
\<close>

definition submitUserData7_start :: "UserData7 \<Rightarrow> State7 \<Rightarrow> State7 \<times> effect list" where
  "submitUserData7_start data s = (s\<lparr>isLoading := True\<rparr>, [FetchPost data])"

definition submitUserData7_settle ::
  "UserData7 \<Rightarrow> fetch_outcome \<Rightarrow> nat \<Rightarrow> State7 \<Rightarrow> State7 \<times> effect list" where
  "submitUserData7_settle data outcome now s =
     (let (e1, r) = submitProfileData outcome;
          (e2, matchedProfiles) =
            (case r of
               Inr d \<Rightarrow> ([ConsoleLog ''Successfully submitted to backend:''], d)
             | Inl backendError \<Rightarrow>
                 ([ConsoleWarn ''Backend not available, using mock data:'',
                   SetTimeout ResumeSubmit 2000],
                  Profiles (slice0 mockProfiles7 (profileCount data))));
          s1 = s\<lparr>matches := matchedProfiles\<rparr>
      in (case lengthOf matchedProfiles of
            Inl error \<Rightarrow>
              (s1\<lparr>isLoading := False\<rparr>,
               e1 @ e2 @ [ToastError ''Failed to find matches. Please try again.'',
                          ConsoleError ''Error submitting user data:''])
          | Inr n \<Rightarrow>
              (s1\<lparr>messages := messages s1 @ [successMessage7 now n], isLoading := False\<rparr>,
               e1 @ e2 @ [ToastSuccess ''Profile matches found!''])))"

definition handleSubmit7 :: "nat \<Rightarrow> State7 \<Rightarrow> State7 \<times> effect list" where
  "handleSubmit7 now s =
     (if trim (currentInput s) = [] then (s, [])
      else if \<not> validateResponse7 (currentInput s) (currentQuestionIndex s) then
        (s, [ToastError ''Please provide a valid response''])
      else
        (let userMessage =
               \<lparr>msg_id = decimal now, msg_type = User, content = currentInput s,
                timestamp = now, questionIndex = Some (currentQuestionIndex s)\<rparr>;
             updatedUserData =
               processResponse7 (userData s) (currentInput s) (currentQuestionIndex s);
             s1 = s\<lparr>messages := messages s @ [userMessage], userData := updatedUserData,
                    currentInput := [], showOptions := False\<rparr>
         in if currentQuestionIndex s \<ge> length questions7 - 1 then
              submitUserData7_start updatedUserData (s1\<lparr>isComplete := True\<rparr>)
            else
              (s1\<lparr>currentQuestionIndex := currentQuestionIndex s + 1\<rparr>,
               [SetTimeout (AskQuestion (currentQuestionIndex s + 1)) 500])))"

section \<open>The five-question screen\<close>

record UserData5 =
  name5 :: "string option"
  skills5 :: "string list option"
  location5 :: "string option"
  yearsExperience5 :: "number option"
  jobType5 :: "string option"

record MatchProfile5 =
  mp5_id :: string
  mp5_photo :: string
  mp5_name :: string
  mp5_title :: string
  mp5_experience :: string
  mp5_location :: string
  mp5_skills :: "string list"

type_synonym State5 = "(UserData5, MatchProfile5 list) ChatState"

definition questions5 :: "string list" where
  "questions5 =
     [''What's your full name?'',
      ''What are your key technical skills? (separate with commas)'',
      ''Where are you located? (city, country)'',
      ''How many years of professional experience do you have?'',
      ''What type of job role are you seeking? (e.g., Full-time, Contract, Remote)'']"

definition validateResponse5 :: "string \<Rightarrow> nat \<Rightarrow> bool" where
  "validateResponse5 response i =
     (let trimmed = trim response in
      if i = 0 then length trimmed \<ge> 2
      else if i = 1 then length trimmed > 0
      else if i = 2 then CHR '','' \<in> set trimmed \<and> length trimmed \<ge> 3
      else if i = 3 then
        (case parseInt trimmed of NaN \<Rightarrow> False | Num years \<Rightarrow> years \<ge> 0 \<and> years \<le> 50)
      else if i = 4 then length trimmed > 0
      else True)"

definition processResponse5 :: "UserData5 \<Rightarrow> string \<Rightarrow> nat \<Rightarrow> UserData5" where
  "processResponse5 newUserData response i =
     (if i = 0 then newUserData\<lparr>name5 := Some (trim response)\<rparr>
      else if i = 1 then
        newUserData\<lparr>skills5 := Some (filter (\<lambda>skill. skill \<noteq> []) (map trim (split CHR '','' response)))\<rparr>
      else if i = 2 then newUserData\<lparr>location5 := Some (trim response)\<rparr>
      else if i = 3 then newUserData\<lparr>yearsExperience5 := Some (parseInt (trim response))\<rparr>
      else if i = 4 then newUserData\<lparr>jobType5 := Some (trim response)\<rparr>
      else newUserData)"

definition mockMatches5 :: "MatchProfile5 list" where
  "mockMatches5 =
     [\<lparr>mp5_id = ''1'',
       mp5_photo = ''https://images.pexels.com/photos/2379004/pexels-photo-2379004.jpeg?auto=compress&cs=tinysrgb&w=150&h=150&fit=crop'',
       mp5_name = ''Sarah Johnson'', mp5_title = ''Senior Frontend Developer'',
       mp5_experience = ''5 years'', mp5_location = ''San Francisco, CA'',
       mp5_skills = [''React'', ''TypeScript'', ''Node.js'']\<rparr>,
      \<lparr>mp5_id = ''2'',
       mp5_photo = ''https://images.pexels.com/photos/1222271/pexels-photo-1222271.jpeg?auto=compress&cs=tinysrgb&w=150&h=150&fit=crop'',
       mp5_name = ''Michael Chen'', mp5_title = ''Full Stack Engineer'',
       mp5_experience = ''7 years'', mp5_location = ''New York, NY'',
       mp5_skills = [''Python'', ''React'', ''AWS'']\<rparr>,
      \<lparr>mp5_id = ''3'',
       mp5_photo = ''https://images.pexels.com/photos/1239291/pexels-photo-1239291.jpeg?auto=compress&cs=tinysrgb&w=150&h=150&fit=crop'',
       mp5_name = ''Emily Rodriguez'', mp5_title = ''UX/UI Designer'',
       mp5_experience = ''4 years'', mp5_location = ''Austin, TX'',
       mp5_skills = [''Figma'', ''Design Systems'', ''User Research'']\<rparr>]"

text \<open>Here the submission is a pause of 2000 ms and the fixed list; nothing in it throws.\<close>

definition submitUserData5_start :: "UserData5 \<Rightarrow> State5 \<Rightarrow> State5 \<times> effect list" where
  "submitUserData5_start data s = (s\<lparr>isLoading := True\<rparr>, [SetTimeout ResumeSubmit 2000])"

definition submitUserData5_settle :: "nat \<Rightarrow> State5 \<Rightarrow> State5 \<times> effect list" where
  "submitUserData5_settle now s =
     (s\<lparr>matches := mockMatches5,
        messages := messages s @
          [\<lparr>msg_id = decimal now, msg_type = Bot,
            content = ''Perfect! Based on your profile, I found '' @ decimal (length mockMatches5) @
              '' potential matches. Here are some professionals who might be great connections for you:'',
            timestamp = now, questionIndex = None\<rparr>],
        isLoading := False\<rparr>,
      [ToastSuccess ''Profile matches found!''])"

definition handleSubmit5 :: "nat \<Rightarrow> State5 \<Rightarrow> State5 \<times> effect list" where
  "handleSubmit5 now s =
     (if trim (currentInput s) = [] then (s, [])
      else if \<not> validateResponse5 (currentInput s) (currentQuestionIndex s) then
        (s, [ToastError ''Please provide a valid response''])
      else
        (let userMessage =
               \<lparr>msg_id = decimal now, msg_type = User, content = currentInput s,
                timestamp = now, questionIndex = Some (currentQuestionIndex s)\<rparr>;
             updatedUserData =
               processResponse5 (userData s) (currentInput s) (currentQuestionIndex s);
             s1 = s\<lparr>messages := messages s @ [userMessage], userData := updatedUserData,
                    currentInput := []\<rparr>
         in if currentQuestionIndex s \<ge> length questions5 - 1 then
              submitUserData5_start updatedUserData (s1\<lparr>isComplete := True\<rparr>)
            else
              (s1\<lparr>currentQuestionIndex := currentQuestionIndex s + 1\<rparr>,
               [SetTimeout (AskQuestion (currentQuestionIndex s + 1)) 500])))"

section \<open>Views and example states\<close>

text \<open>
  The accumulator read as a partial mapping from the slot (the position of the question)
  to the typed value stored for it, the fields in the order of the \<^verbatim>\<open>switch\<close> of
  \<^verbatim>\<open>processResponse\<close>.
\<close>

datatype answer = Text string | TextList "string list" | Number number

definition slot7 :: "UserData7 \<Rightarrow> nat \<Rightarrow> answer option" where
  "slot7 u i =
     (if i = 0 then map_option Text (name u)
      else if i = 1 then map_option Text (jobRole u)
      else if i = 2 then map_option TextList (skills u)
      else if i = 3 then map_option Number (jobLevel u)
      else if i = 4 then map_option Text (certificationLevel u)
      else if i = 5 then map_option Text (proficiencyLevel u)
      else if i = 6 then map_option Number (profileCount u)
      else None)"

text \<open>\<^verbatim>\<open>parts.join(',')\<close>, the inverse of splitting: the parts with the separator between them.\<close>

fun join :: "char \<Rightarrow> string list \<Rightarrow> string" where
  "join sep [] = []"
| "join sep [p] = p"
| "join sep (p # q # ps) = p @ sep # join sep (q # ps)"

text \<open>
  Integers as text, for stating what the numeric slots accept. \<open>isIntegerNumeral\<close> is the
  specification's reading of a numeric answer: an optional sign and then decimal digits,
  nothing else. \<open>valueOf\<close> is the number that a row of decimal digits denotes.
\<close>

definition isDecimalDigit :: "char \<Rightarrow> bool" where
  "isDecimalDigit c \<longleftrightarrow> c \<in> set ''0123456789''"

fun valueOf :: "string \<Rightarrow> nat" where
  "valueOf [] = 0"
| "valueOf (c # cs) = ((of_char c :: nat) - 48) * 10 ^ length cs + valueOf cs"

definition isIntegerNumeral :: "string \<Rightarrow> bool" where
  "isIntegerNumeral s =
     (let body = (if s \<noteq> [] \<and> (hd s = CHR ''+'' \<or> hd s = CHR ''-'') then tl s else s)
      in body \<noteq> [] \<and> list_all isDecimalDigit body)"

text \<open>
  The two shapes a text without a hexadecimal prefix can have. \<open>numeralShape s sg ds rest\<close>:
  \<open>s\<close> is an optional sign \<open>sg\<close>, then the digits \<open>ds\<close> (at least one), then \<open>rest\<close>,
  which is empty or begins with something that is no digit; a lone \<^verbatim>\<open>0\<close> followed by
  \<^verbatim>\<open>x\<close> or \<^verbatim>\<open>X\<close> is set apart, being the hexadecimal prefix. \<open>noNumeral s\<close>: after an
  optional sign, \<open>s\<close> does not begin with a digit.
\<close>

definition numeralShape :: "string \<Rightarrow> string \<Rightarrow> string \<Rightarrow> string \<Rightarrow> bool" where
  "numeralShape s sg ds rest \<longleftrightarrow>
     s = sg @ ds @ rest
     \<and> (sg = [] \<or> sg = ''+'' \<or> sg = ''-'')
     \<and> ds \<noteq> [] \<and> list_all isDecimalDigit ds
     \<and> (rest = [] \<or> \<not> isDecimalDigit (hd rest))
     \<and> \<not> (ds = ''0'' \<and> rest \<noteq> [] \<and> (hd rest = CHR ''x'' \<or> hd rest = CHR ''X''))"

definition signedValue :: "string \<Rightarrow> string \<Rightarrow> int" where
  "signedValue sg ds = (if sg = ''-'' then - int (valueOf ds) else int (valueOf ds))"

definition noNumeral :: "string \<Rightarrow> bool" where
  "noNumeral s =
     (let body = (if s \<noteq> [] \<and> (hd s = CHR ''+'' \<or> hd s = CHR ''-'') then tl s else s)
      in body = [] \<or> \<not> isDecimalDigit (hd body))"

text \<open>
  States to run the handlers on: the freshly mounted screens, the screens once the first
  question has been put, and the seven-question screen after the answer \<^verbatim>\<open>Ana\<close>.
\<close>

definition idle7 :: State7 where
  "idle7 =
     \<lparr>messages = [], currentInput = [], currentQuestionIndex = 0, isTyping = False,
      userData = \<lparr>name = None, jobRole = None, skills = None, jobLevel = None,
                  certificationLevel = None, proficiencyLevel = None, profileCount = None\<rparr>,
      isComplete = False, matches = Profiles [], isLoading = False,
      editingMessageId = None, editValue = [], showOptions = False\<rparr>"

definition idle5 :: State5 where
  "idle5 =
     \<lparr>messages = [], currentInput = [], currentQuestionIndex = 0, isTyping = False,
      userData = \<lparr>name5 = None, skills5 = None, location5 = None, yearsExperience5 = None,
                  jobType5 = None\<rparr>,
      isComplete = False, matches = [], isLoading = False,
      editingMessageId = None, editValue = []\<rparr>"

definition asked7 :: State7 where
  "asked7 = appendQuestion7 2500 0 (fst (initializeChat7 1000 idle7))"

definition asked5 :: State5 where
  "asked5 = idle5\<lparr>messages :=
     [\<lparr>msg_id = ''2500'', msg_type = Bot, content = questions5 ! 0, timestamp = 2500,
       questionIndex = None\<rparr>]\<rparr>"

definition answered7 :: State7 where
  "answered7 = fst (handleSubmit7 5000 (asked7\<lparr>currentInput := ''Ana''\<rparr>))"

definition answer7 :: ChatMessage where
  "answer7 = \<lparr>msg_id = ''5000'', msg_type = User, content = ''Ana'', timestamp = 5000,
              questionIndex = Some 0\<rparr>"

definition lastQuestion7 :: State7 where
  "lastQuestion7 = answered7\<lparr>currentQuestionIndex := 6, currentInput := ''2''\<rparr>"

section \<open>Facts about the string functions\<close>

lemmas js_eval = trim_def trimEnd_def trimStart_def isWhiteSpace_def parseInt_def
  isRadixDigit_def digitVal_def mathInt_def

lemmas model_eval = handleSubmit7_def handleSubmit5_def validateResponse7_def validateResponse5_def
  processResponse7_def processResponse5_def saveEdit7_def
  asked7_def asked5_def idle5_def idle7_def appendQuestion7_def initializeChat7_def initialMessage7_def
  questions7_def questions5_def certificationOptions_def proficiencyOptions_def
  decimal.simps digitChar_def

lemma trimStart_blank: "(\<forall>c\<in>set s. isWhiteSpace c) \<Longrightarrow> trimStart s = []"
  by (simp add: trimStart_def)

lemma trim_blank: "(\<forall>c\<in>set s. isWhiteSpace c) \<Longrightarrow> trim s = []"
  by (simp add: trim_def trimEnd_def trimStart_blank)

lemma trim_empty_iff: "trim s = [] \<longleftrightarrow> (\<forall>c\<in>set s. isWhiteSpace c)"
proof
  assume e: "trim s = []"
  show "\<forall>c\<in>set s. isWhiteSpace c"
  proof (cases "dropWhile isWhiteSpace s")
    case Nil
    then show ?thesis by (simp add: dropWhile_eq_Nil_conv)
  next
    case (Cons c cs)
    then have "\<not> isWhiteSpace c" using hd_dropWhile [of isWhiteSpace s] by simp
    moreover from e Cons have "isWhiteSpace c"
      by (simp add: trim_def trimEnd_def trimStart_def dropWhile_eq_Nil_conv)
    ultimately show ?thesis by simp
  qed
next
  assume "\<forall>c\<in>set s. isWhiteSpace c"
  then show "trim s = []" by (rule trim_blank)
qed

lemma split_not_Nil: "split sep s \<noteq> []"
  by (induction s) (auto split: list.splits)

lemma join_Cons_Cons: "join sep ((c # p) # ps) = c # join sep (p # ps)"
  by (cases ps) simp_all

lemma join_split: "join sep (split sep s) = s"
proof (induction s)
  case Nil
  show ?case by simp
next
  case (Cons c cs)
  obtain p ps where sp: "split sep cs = p # ps"
    using split_not_Nil [of sep cs] by (cases "split sep cs") auto
  with Cons show ?case by (simp add: join_Cons_Cons)
qed

lemma split_parts_free: "p \<in> set (split sep s) \<Longrightarrow> sep \<notin> set p"
proof (induction s arbitrary: p)
  case Nil
  then show ?case by simp
next
  case (Cons c cs)
  obtain q qs where sp: "split sep cs = q # qs"
    using split_not_Nil [of sep cs] by (cases "split sep cs") auto
  with Cons show ?case by (auto split: if_splits)
qed

lemma split_free: "sep \<notin> set p \<Longrightarrow> split sep p = [p]"
  by (induction p) auto

lemma split_append_sep: "sep \<notin> set p \<Longrightarrow> split sep (p @ sep # r) = p # split sep r"
  by (induction p) auto

lemma split_join:
  "ps \<noteq> [] \<Longrightarrow> \<forall>p\<in>set ps. sep \<notin> set p \<Longrightarrow> split sep (join sep ps) = ps"
proof (induction sep ps rule: join.induct)
  case (1 sep)
  then show ?case by simp
next
  case (2 sep p)
  then show ?case by (simp add: split_free)
next
  case (3 sep p q ps)
  then show ?case by (simp add: split_append_sep)
qed

lemma dropWhile_hd: "xs \<noteq> [] \<Longrightarrow> \<not> P (hd xs) \<Longrightarrow> dropWhile P xs = xs"
  by (cases xs) simp_all

lemma trim_id:
  assumes "s \<noteq> []" and "\<not> isWhiteSpace (hd s)" and "\<not> isWhiteSpace (last s)"
  shows "trim s = s"
proof -
  have 1: "dropWhile isWhiteSpace s = s" using assms(1,2) by (rule dropWhile_hd)
  have 2: "dropWhile isWhiteSpace (rev s) = rev s"
    using assms(1,3) by (intro dropWhile_hd) (simp_all add: hd_rev)
  show ?thesis by (simp add: trim_def trimStart_def trimEnd_def 1 2)
qed

subsection \<open>What \<open>parseInt\<close> makes of some inputs\<close>

text \<open>
  \<^verbatim>\<open>parseInt\<close> reads the longest numeric prefix, so an input with trailing text, a
  fraction or a hexadecimal prefix has a value, and a numeric slot accepts it when that value
  lies in the range.
\<close>

lemma parseInt_examples:
  "parseInt ''7abc'' = Num 7" "parseInt ''0x1F'' = Num 31" "parseInt ''-12.5'' = Num (- 12)"
  "parseInt ''  +42'' = Num 42" "parseInt ''abc'' = NaN" "parseInt ''-'' = NaN"
  "parseInt ''0x'' = NaN"
  by (simp_all add: js_eval)

lemma numeric_prefix_accepted:
  "validateResponse7 ''7abc'' 3" "validateResponse7 ''3.9'' 6" "validateResponse5 ''0x10'' 3"
  "\<not> validateResponse7 ''11'' 3" "\<not> validateResponse7 ''0'' 6" "\<not> validateResponse5 ''-1'' 3"
  by (simp_all add: validateResponse7_def validateResponse5_def js_eval)

subsection \<open>\<open>parseInt\<close> reads back what \<open>decimal\<close> writes\<close>

lemma parseInt_Nil: "parseInt [] = NaN"
  by (simp add: parseInt_def trimStart_def)

lemma lt10_cases: "d < 10 \<Longrightarrow> d \<in> {0, 1, 2, 3, 4, 5, 6, 7, 8, 9 :: nat}"
  by auto

lemma digitChar_props:
  assumes "d < 10"
  shows "digitVal (digitChar d) = Some d" "\<not> isWhiteSpace (digitChar d)"
    "digitChar d \<noteq> CHR ''-''" "digitChar d \<noteq> CHR ''+''"
    "digitChar d \<noteq> CHR ''x''" "digitChar d \<noteq> CHR ''X''"
  using lt10_cases [OF assms]
  by (auto simp: digitChar_def digitVal_def isWhiteSpace_def)

lemma isRadixDigit_digitChar: "d < 10 \<Longrightarrow> isRadixDigit 10 (digitChar d)"
  by (simp add: isRadixDigit_def digitChar_props)

lemma decimal_digits: "c \<in> set (decimal n) \<Longrightarrow> \<exists>d<10. c = digitChar d"
proof (induction n arbitrary: c rule: decimal.induct)
  case (1 n)
  show ?case
  proof (cases "n < 10")
    case True
    with "1.prems" show ?thesis by (auto simp: decimal.simps [of n])
  next
    case False
    with "1.prems" have "c \<in> set (decimal (n div 10)) \<or> c = digitChar (n mod 10)"
      by (auto simp: decimal.simps [of n])
    then show ?thesis
    proof
      assume "c \<in> set (decimal (n div 10))"
      with False "1.IH" show ?thesis by simp
    next
      assume "c = digitChar (n mod 10)"
      moreover have "n mod 10 < 10" by simp
      ultimately show ?thesis by blast
    qed
  qed
qed

lemma decimal_not_Nil: "decimal n \<noteq> []"
  by (subst decimal.simps) simp

lemma mathInt_snoc:
  "mathInt R (Z @ [c]) = mathInt R Z * R + (case digitVal c of None \<Rightarrow> 0 | Some d \<Rightarrow> d)"
  by (simp add: mathInt_def)

lemma mathInt_decimal: "mathInt 10 (decimal n) = n"
proof (induction n rule: decimal.induct)
  case (1 n)
  show ?case
  proof (cases "n < 10")
    case True
    then show ?thesis by (simp add: decimal.simps [of n] mathInt_def digitChar_props)
  next
    case False
    with "1.IH" have "mathInt 10 (decimal (n div 10)) = n div 10" by simp
    with False show ?thesis
      by (simp add: decimal.simps [of n] mathInt_snoc digitChar_props)
  qed
qed

lemma take2_digits_not_hex:
  assumes "\<forall>c\<in>set Z. \<exists>d<10. c = digitChar d"
  shows "take 2 Z \<noteq> [CHR ''0'', x] \<or> (x \<noteq> CHR ''x'' \<and> x \<noteq> CHR ''X'')"
proof (cases Z)
  case Nil
  then show ?thesis by simp
next
  case (Cons c cs)
  show ?thesis
  proof (cases cs)
    case Nil
    with Cons show ?thesis by simp
  next
    case (Cons e es)
    with \<open>Z = c # cs\<close> assms obtain d where "d < 10" "e = digitChar d" by auto
    with Cons \<open>Z = c # cs\<close> show ?thesis by (auto simp: digitChar_props)
  qed
qed

lemma parseInt_digits:
  assumes "Z \<noteq> []" and "\<forall>c\<in>set Z. \<exists>d<10. c = digitChar d"
  shows "parseInt Z = Num (int (mathInt 10 Z))"
proof -
  obtain c cs where Z: "Z = c # cs" using assms(1) by (cases Z) auto
  with assms(2) obtain d where d: "d < 10" "c = digitChar d" by auto
  have ts: "trimStart Z = Z" using Z d by (simp add: trimStart_def digitChar_props)
  have nohex: "take 2 Z \<noteq> ''0x''" "take 2 Z \<noteq> ''0X''"
    using take2_digits_not_hex [OF assms(2), of "CHR ''x''"]
      take2_digits_not_hex [OF assms(2), of "CHR ''X''"] by simp_all
  have tw: "takeWhile (isRadixDigit 10) Z = Z"
    using assms(2) by (auto simp: takeWhile_eq_all_conv isRadixDigit_digitChar)
  have hd: "hd Z \<noteq> CHR ''-''" "hd Z \<noteq> CHR ''+''" using Z d by (simp_all add: digitChar_props)
  show ?thesis
    using assms(1) nohex hd by (simp add: parseInt_def Let_def ts tw)
qed

lemma parseInt_decimal: "parseInt (decimal n) = Num (int n)"
  using parseInt_digits [of "decimal n"] decimal_digits [of _ n]
  by (simp add: decimal_not_Nil mathInt_decimal)

lemma trim_decimal: "trim (decimal n) = decimal n"
proof -
  have nw: "\<forall>c\<in>set (decimal n). \<not> isWhiteSpace c"
    using decimal_digits [of _ n] digitChar_props(2) by blast
  then show ?thesis
    using decimal_not_Nil [of n] by (intro trim_id) simp_all
qed

subsection \<open>\<open>parseInt\<close> by the shape of its argument\<close>

lemma char_of_digits:
  "char_of (48::nat) = CHR ''0''" "char_of (49::nat) = CHR ''1''" "char_of (50::nat) = CHR ''2''"
  "char_of (51::nat) = CHR ''3''" "char_of (52::nat) = CHR ''4''" "char_of (53::nat) = CHR ''5''"
  "char_of (54::nat) = CHR ''6''" "char_of (55::nat) = CHR ''7''" "char_of (56::nat) = CHR ''8''"
  "char_of (57::nat) = CHR ''9''"
  by code_simp+

lemma range_48_57: "48 \<le> n \<Longrightarrow> n \<le> 57 \<Longrightarrow> n \<in> {48, 49, 50, 51, 52, 53, 54, 55, 56, 57 :: nat}"
  by simp arith

lemma isDecimalDigit_iff: "isDecimalDigit c \<longleftrightarrow> 48 \<le> (of_char c :: nat) \<and> (of_char c :: nat) \<le> 57"
proof
  assume "isDecimalDigit c"
  then show "48 \<le> (of_char c :: nat) \<and> (of_char c :: nat) \<le> 57"
    by (auto simp: isDecimalDigit_def)
next
  assume a: "48 \<le> (of_char c :: nat) \<and> (of_char c :: nat) \<le> 57"
  have c: "c = char_of (of_char c :: nat)" by simp
  from a have "(of_char c :: nat) \<in> {48, 49, 50, 51, 52, 53, 54, 55, 56, 57}"
    by (intro range_48_57) simp_all
  then have "char_of (of_char c :: nat) \<in> set ''0123456789''"
    by (auto simp: char_of_digits simp del: char_of_char)
  with c show "isDecimalDigit c" by (simp add: isDecimalDigit_def)
qed

lemma isRadixDigit_10: "isRadixDigit 10 c \<longleftrightarrow> isDecimalDigit c"
  by (auto simp: isRadixDigit_def digitVal_def isDecimalDigit_iff Let_def)

lemma digitVal_decimal: "isDecimalDigit c \<Longrightarrow> digitVal c = Some (of_char c - 48)"
  by (simp add: digitVal_def isDecimalDigit_iff)

lemma foldl_valueOf:
  "list_all isDecimalDigit ds \<Longrightarrow>
     foldl (\<lambda>a c. a * 10 + (case digitVal c of None \<Rightarrow> 0 | Some d \<Rightarrow> d)) a ds
       = a * 10 ^ length ds + valueOf ds"
proof (induction ds arbitrary: a)
  case Nil
  show ?case by simp
next
  case (Cons c cs)
  then show ?case by (simp add: digitVal_decimal algebra_simps)
qed

lemma mathInt_valueOf: "list_all isDecimalDigit ds \<Longrightarrow> mathInt 10 ds = valueOf ds"
  using foldl_valueOf [of ds 0] by (simp add: mathInt_def)


lemma decimalDigit_props:
  assumes "isDecimalDigit c"
  shows "\<not> isWhiteSpace c" "c \<noteq> CHR ''-''" "c \<noteq> CHR ''+''" "c \<noteq> CHR ''x''" "c \<noteq> CHR ''X''"
  using assms by (auto simp: isDecimalDigit_def isWhiteSpace_def)

lemma takeWhile_digits:
  assumes "list_all isDecimalDigit ds" and "rest = [] \<or> \<not> isDecimalDigit (hd rest)"
  shows "takeWhile (isRadixDigit 10) (ds @ rest) = ds"
proof -
  have a: "\<forall>c\<in>set ds. isRadixDigit 10 c"
    using assms(1) by (simp add: list_all_iff isRadixDigit_10)
  have b: "takeWhile (isRadixDigit 10) rest = []"
    using assms(2) by (cases rest) (simp_all add: isRadixDigit_10)
  show ?thesis using a b by (simp add: takeWhile_append)
qed

lemma not_hex:
  assumes "ds \<noteq> []" and "list_all isDecimalDigit ds"
    and "\<not> (ds = ''0'' \<and> rest \<noteq> [] \<and> (hd rest = CHR ''x'' \<or> hd rest = CHR ''X''))"
  shows "take 2 (ds @ rest) \<noteq> ''0x'' \<and> take 2 (ds @ rest) \<noteq> ''0X''"
proof (cases ds)
  case Nil
  with assms(1) show ?thesis by simp
next
  case (Cons c cs)
  show ?thesis
  proof (cases cs)
    case Nil
    with Cons assms(3) show ?thesis by (cases rest) auto
  next
    case (Cons e es)
    with \<open>ds = c # cs\<close> assms(2) have "isDecimalDigit e" by simp
    with Cons \<open>ds = c # cs\<close> show ?thesis by (auto dest: decimalDigit_props)
  qed
qed

lemma parseInt_radix10:
  assumes ts: "trimStart s = s"
    and nh: "take 2 (if s \<noteq> [] \<and> (hd s = CHR ''+'' \<or> hd s = CHR ''-'') then tl s else s) \<noteq> ''0x''"
      "take 2 (if s \<noteq> [] \<and> (hd s = CHR ''+'' \<or> hd s = CHR ''-'') then tl s else s) \<noteq> ''0X''"
    and tw: "takeWhile (isRadixDigit 10)
               (if s \<noteq> [] \<and> (hd s = CHR ''+'' \<or> hd s = CHR ''-'') then tl s else s) = Z"
  shows "parseInt s =
           (if Z = [] then NaN
            else Num ((if s \<noteq> [] \<and> hd s = CHR ''-'' then - 1 else 1) * int (mathInt 10 Z)))"
proof -
  let ?S1 = "if s \<noteq> [] \<and> (hd s = CHR ''+'' \<or> hd s = CHR ''-'') then tl s else s"
  have f: "(take 2 ?S1 = ''0x'' \<or> take 2 ?S1 = ''0X'') = False" using nh by simp
  show ?thesis
    unfolding parseInt_def Let_def ts by (simp only: f if_False tw)
qed

lemma parseInt_numeralShape:
  assumes "numeralShape s sg ds rest"
  shows "parseInt s = Num (signedValue sg ds)"
proof -
  from assms have s: "s = sg @ ds @ rest" and sgs: "sg = [] \<or> sg = ''+'' \<or> sg = ''-''"
    and ds: "ds \<noteq> []" "list_all isDecimalDigit ds"
    and r: "rest = [] \<or> \<not> isDecimalDigit (hd rest)"
    and h: "\<not> (ds = ''0'' \<and> rest \<noteq> [] \<and> (hd rest = CHR ''x'' \<or> hd rest = CHR ''X''))"
    by (simp_all add: numeralShape_def)
  obtain c cs where c: "ds = c # cs" using ds(1) by (cases ds) auto
  with ds(2) have cd: "isDecimalDigit c" by simp
  note nh = not_hex [OF ds h]
  note tw = takeWhile_digits [OF ds(2) r]
  note v = mathInt_valueOf [OF ds(2)]
  let ?S1 = "if s \<noteq> [] \<and> (hd s = CHR ''+'' \<or> hd s = CHR ''-'') then tl s else s"
  have hd: "s \<noteq> []" "hd s = (if sg = [] then c else hd sg)" using s c by auto
  have ts: "trimStart s = s"
    using sgs hd decimalDigit_props(1) [OF cd]
    by (cases s) (auto simp: trimStart_def isWhiteSpace_def)
  have S1: "?S1 = ds @ rest"
    using sgs s c decimalDigit_props(2,3) [OF cd] by auto
  have m: "(s \<noteq> [] \<and> hd s = CHR ''-'') = (sg = ''-'')"
    using sgs s c decimalDigit_props(2) [OF cd] by auto
  have "parseInt s =
      (if ds = [] then NaN
       else Num ((if s \<noteq> [] \<and> hd s = CHR ''-'' then - 1 else 1) * int (mathInt 10 ds)))"
    by (rule parseInt_radix10 [OF ts]) (simp_all only: S1 nh tw not_False_eq_True)
  then show ?thesis using ds(1) by (simp add: m v signedValue_def)
qed

lemma trim_hd: "trim s \<noteq> [] \<Longrightarrow> \<not> isWhiteSpace (hd (trim s))"
proof -
  assume n: "trim s \<noteq> []"
  let ?t = "dropWhile isWhiteSpace s"
  have "rev ?t = takeWhile isWhiteSpace (rev ?t) @ dropWhile isWhiteSpace (rev ?t)" by simp
  then have "rev (rev ?t) = rev (takeWhile isWhiteSpace (rev ?t) @ dropWhile isWhiteSpace (rev ?t))"
    by (rule arg_cong)
  then have t: "?t = trim s @ rev (takeWhile isWhiteSpace (rev ?t))"
    by (simp only: rev_rev_ident rev_append trim_def trimEnd_def trimStart_def)
  have "?t \<noteq> []"
  proof
    assume "?t = []"
    then have "\<forall>c\<in>set s. isWhiteSpace c" by simp
    then have "trim s = []" by (rule trim_blank)
    with n show False by simp
  qed
  then have "\<not> isWhiteSpace (hd ?t)" by (rule hd_dropWhile)
  moreover have "hd ?t = hd (trim s)" using n by (subst t) simp
  ultimately show ?thesis by simp
qed

lemma trimStart_trim: "trimStart (trim s) = trim s"
proof (cases "trim s")
  case Nil
  then show ?thesis by (simp add: trimStart_def)
next
  case (Cons c cs)
  with trim_hd [of s] show ?thesis by (simp add: trimStart_def)
qed

lemma parseInt_noNumeral:
  assumes "trimStart s = s" and "noNumeral s"
  shows "parseInt s = NaN"
proof -
  let ?body = "if s \<noteq> [] \<and> (hd s = CHR ''+'' \<or> hd s = CHR ''-'') then tl s else s"
  from assms(2) have b: "?body = [] \<or> \<not> isDecimalDigit (hd ?body)"
    by (simp add: noNumeral_def Let_def)
  have z: "isDecimalDigit (CHR ''0'')" by (simp add: isDecimalDigit_def)
  have nh: "take 2 ?body \<noteq> ''0x''" "take 2 ?body \<noteq> ''0X''"
    using b z by (cases ?body; force)+
  have tw: "takeWhile (isRadixDigit 10) ?body = []"
    using b by (cases ?body) (simp_all add: isRadixDigit_10)
  show ?thesis
    using parseInt_radix10 [OF assms(1) nh tw] by simp
qed

lemma integerNumeral_shape:
  assumes "isIntegerNumeral s"
  shows "\<exists>sg ds. numeralShape s sg ds []"
proof -
  let ?body = "if s \<noteq> [] \<and> (hd s = CHR ''+'' \<or> hd s = CHR ''-'') then tl s else s"
  from assms have b: "?body \<noteq> []" "list_all isDecimalDigit ?body"
    by (simp_all add: isIntegerNumeral_def Let_def)
  show ?thesis
  proof (cases "s \<noteq> [] \<and> (hd s = CHR ''+'' \<or> hd s = CHR ''-'')")
    case True
    then have "s = [hd s] @ tl s @ []" by simp
    with True b have "numeralShape s [hd s] (tl s) []"
      by (auto simp: numeralShape_def)
    then show ?thesis by blast
  next
    case False
    with b have "numeralShape s [] s []" by (auto simp: numeralShape_def)
    then show ?thesis by blast
  qed
qed

section \<open>Facts about the handlers\<close>

lemma answered7_eq:
  "answered7 =
     idle7\<lparr>messages :=
             [initialMessage7 1000,
              \<lparr>msg_id = ''2500'', msg_type = Bot, content = ''What is your name?'',
               timestamp = 2500, questionIndex = None\<rparr>,
              answer7],
           userData := (userData idle7)\<lparr>name := Some ''Ana''\<rparr>,
           currentQuestionIndex := 1\<rparr>"
  by (simp add: answered7_def answer7_def model_eval js_eval)

lemma slot7_processResponse7_other:
  "j \<noteq> i \<Longrightarrow> slot7 (processResponse7 u r i) j = slot7 u j"
  by (simp add: slot7_def processResponse7_def)

lemma slot7_processResponse7_same:
  "i < 7 \<Longrightarrow> slot7 (processResponse7 u r i) i = slot7 (processResponse7 u' r i) i"
  by (simp add: slot7_def processResponse7_def)

lemma slot7_processResponse7_defined:
  "i < 7 \<Longrightarrow> slot7 (processResponse7 u r i) i \<noteq> None"
  by (simp add: slot7_def processResponse7_def)

lemma validateResponse7_nonblank:
  "i < 7 \<Longrightarrow> validateResponse7 r i \<Longrightarrow> trim r \<noteq> []"
  by (auto simp: validateResponse7_def Let_def certificationOptions_def proficiencyOptions_def
      parseInt_def trimStart_def split: if_splits number.splits)

lemma distinct_id_eq:
  assumes "distinct (map msg_id ms)" "m \<in> set ms" "k < length ms"
  shows "msg_id (ms ! k) = msg_id m \<longleftrightarrow> ms ! k = m"
proof
  assume e: "msg_id (ms ! k) = msg_id m"
  from assms(2) obtain j where j: "j < length ms" "ms ! j = m" by (auto simp: in_set_conv_nth)
  with e assms(1,3) have "k = j"
    by (metis distinct_conv_nth length_map nth_map)
  with j show "ms ! k = m" by simp
qed simp

subsection \<open>Numeric slots\<close>

lemma rejected5:
  "\<not> validateResponse5 (currentInput s) (currentQuestionIndex s) \<Longrightarrow> fst (handleSubmit5 now s) = s"
  by (simp add: handleSubmit5_def)

lemma rejected7:
  "\<not> validateResponse7 (currentInput s) (currentQuestionIndex s) \<Longrightarrow> fst (handleSubmit7 now s) = s"
  by (simp add: handleSubmit7_def)

lemma numeric_valid5:
  "validateResponse5 r 3 \<longleftrightarrow> (\<exists>n. parseInt (trim r) = Num n \<and> 0 \<le> n \<and> n \<le> 50)"
  by (simp add: validateResponse5_def split: number.splits)

lemma numeric_valid7_3:
  "validateResponse7 r 3 \<longleftrightarrow> (\<exists>n. parseInt (trim r) = Num n \<and> 1 \<le> n \<and> n \<le> 9)"
  by (simp add: validateResponse7_def split: number.splits)

lemma numeric_valid7_6:
  "validateResponse7 r 6 \<longleftrightarrow> (\<exists>n. parseInt (trim r) = Num n \<and> 1 \<le> n \<and> n \<le> 5)"
  by (simp add: validateResponse7_def split: number.splits)

lemma stored5:
  assumes "currentQuestionIndex s = 3" "validateResponse5 (currentInput s) 3"
  shows "yearsExperience5 (userData (fst (handleSubmit5 now s)))
           = Some (parseInt (trim (currentInput s)))"
proof -
  have "trim (currentInput s) \<noteq> []"
    using assms(2) by (auto simp: validateResponse5_def parseInt_Nil)
  then show ?thesis using assms
    by (simp add: handleSubmit5_def processResponse5_def questions5_def submitUserData5_start_def
        Let_def)
qed

lemma stored7_3:
  assumes "currentQuestionIndex s = 3" "validateResponse7 (currentInput s) 3"
  shows "jobLevel (userData (fst (handleSubmit7 now s))) = Some (parseInt (trim (currentInput s)))"
proof -
  have "trim (currentInput s) \<noteq> []"
    using assms(2) by (auto simp: validateResponse7_def parseInt_Nil)
  then show ?thesis using assms
    by (simp add: handleSubmit7_def processResponse7_def questions7_def submitUserData7_start_def
        Let_def)
qed

lemma last_submit7:
  assumes "currentQuestionIndex s = 6" "validateResponse7 (currentInput s) 6"
  shows "handleSubmit7 now s =
           (s\<lparr>messages := messages s @
                  [\<lparr>msg_id = decimal now, msg_type = User, content = currentInput s,
                    timestamp = now, questionIndex = Some 6\<rparr>],
               userData := (userData s)\<lparr>profileCount := Some (parseInt (trim (currentInput s)))\<rparr>,
               currentInput := [], showOptions := False, isComplete := True, isLoading := True\<rparr>,
            [FetchPost ((userData s)\<lparr>profileCount := Some (parseInt (trim (currentInput s)))\<rparr>)])"
proof -
  have "trim (currentInput s) \<noteq> []"
    using assms(2) by (auto simp: validateResponse7_def parseInt_Nil)
  then show ?thesis using assms
    by (simp add: handleSubmit7_def processResponse7_def questions7_def submitUserData7_start_def
        Let_def)
qed

lemma stored7_6:
  assumes "currentQuestionIndex s = 6" "validateResponse7 (currentInput s) 6"
  shows "profileCount (userData (fst (handleSubmit7 now s)))
           = Some (parseInt (trim (currentInput s)))"
  by (simp add: last_submit7 [OF assms])

subsection \<open>The skills slot\<close>

lemma skills_valid7: "validateResponse7 r 2 \<longleftrightarrow> trim r \<noteq> []"
  by (simp add: validateResponse7_def)

lemma skills_valid5: "validateResponse5 r (Suc 0) \<longleftrightarrow> trim r \<noteq> []"
  by (simp add: validateResponse5_def)

lemma skills_stored7:
  assumes "trim (currentInput s) \<noteq> []" "currentQuestionIndex s = 2"
  shows "skills (userData (fst (handleSubmit7 now s)))
           = Some (filter (\<lambda>p. p \<noteq> []) (map trim (split CHR '','' (currentInput s))))"
  using assms
  by (simp add: handleSubmit7_def skills_valid7 processResponse7_def questions7_def Let_def)

lemma skills_stored5:
  assumes "trim (currentInput s) \<noteq> []" "currentQuestionIndex s = 1"
  shows "skills5 (userData (fst (handleSubmit5 now s)))
           = Some (filter (\<lambda>p. p \<noteq> []) (map trim (split CHR '','' (currentInput s))))"
  using assms
  by (simp add: handleSubmit5_def skills_valid5 processResponse5_def questions5_def Let_def)

subsection \<open>Submission\<close>

lemma length_mockProfiles7: "length mockProfiles7 = 5"
  by (simp add: mockProfiles7_def)

lemma slice0_in_range:
  "0 \<le> n \<Longrightarrow> n \<le> int (length xs) \<Longrightarrow> slice0 xs (Some (Num n)) = take (nat n) xs"
  by (simp add: slice0_def min_def)

lemma submitProfileData_fails:
  "outcome = NetworkError \<or> outcome = Response False body \<or> outcome = Response True None
    \<Longrightarrow> \<exists>e. submitProfileData outcome = ([ConsoleError ''Error submitting profile data:''], Inl e)"
  by (auto simp: submitProfileData_def)

lemma settle_fallback:
  assumes "outcome = NetworkError \<or> outcome = Response False body \<or> outcome = Response True None"
  shows "submitUserData7_settle data outcome now t =
           (t\<lparr>matches := Profiles (slice0 mockProfiles7 (profileCount data)),
              messages := messages t @
                 [successMessage7 now (length (slice0 mockProfiles7 (profileCount data)))],
              isLoading := False\<rparr>,
            [ConsoleError ''Error submitting profile data:'',
             ConsoleWarn ''Backend not available, using mock data:'',
             SetTimeout ResumeSubmit 2000,
             ToastSuccess ''Profile matches found!''])"
  using submitProfileData_fails [OF assms]
  by (auto simp: submitUserData7_settle_def lengthOf_def)




subsection \<open>Editing\<close>

text \<open>Whatever the ids in the log, saving an edit leaves every entry with another id alone.\<close>

lemma saveEdit7_other_ids:
  assumes "k < length (messages s)" and "msg_id (messages s ! k) \<noteq> messageId"
  shows "length (messages (fst (saveEdit7 messageId qi s))) = length (messages s)
       \<and> messages (fst (saveEdit7 messageId qi s)) ! k = messages s ! k"
  using assms by (simp add: saveEdit7_def)

section \<open>The claims\<close>

subsection \<open>Submitting an answer\<close>

text \<open>
  Claim C10. In every state of either screen, submitting an input that is empty or consists
  only of white space does nothing: the handler returns the state as it was (no message
  appended, question index and accumulator untouched) and has no effect at all, so no
  validation error is shown either.
\<close>

theorem blank_submit_is_noop:
  assumes "\<forall>c\<in>set (currentInput s7). isWhiteSpace c"
    and "\<forall>c\<in>set (currentInput s5). isWhiteSpace c"
  shows "handleSubmit7 now s7 = (s7, []) \<and> handleSubmit5 now s5 = (s5, [])"
  using assms by (simp add: handleSubmit7_def handleSubmit5_def trim_blank)

theorem blank_submit_is_noop_witness:
  "isWhiteSpace (CHR 0x20) \<and> isWhiteSpace (CHR 0x09)
   \<and> handleSubmit7 5000 (asked7\<lparr>currentInput := [CHR 0x20, CHR 0x09, CHR 0x20]\<rparr>)
       = (asked7\<lparr>currentInput := [CHR 0x20, CHR 0x09, CHR 0x20]\<rparr>, [])
   \<and> handleSubmit5 5000 (asked5\<lparr>currentInput := []\<rparr>) = (asked5\<lparr>currentInput := []\<rparr>, [])"
  using blank_submit_is_noop [of "asked7\<lparr>currentInput := [CHR 0x20, CHR 0x09, CHR 0x20]\<rparr>"
      "asked5\<lparr>currentInput := []\<rparr>" 5000]
  by (simp add: isWhiteSpace_def)

text \<open>
  Claim C7. In every state of either screen, submitting an input that is not blank (not
  empty after trimming) and that the validator of the current slot refuses shows the error
  toast and returns the state exactly as it was: no message appended, question index and
  accumulator unchanged, the typed input still in the input field.
\<close>

theorem invalid_submit_keeps_state:
  assumes "trim (currentInput s7) \<noteq> []"
    and "\<not> validateResponse7 (currentInput s7) (currentQuestionIndex s7)"
    and "trim (currentInput s5) \<noteq> []"
    and "\<not> validateResponse5 (currentInput s5) (currentQuestionIndex s5)"
  shows "handleSubmit7 now s7 = (s7, [ToastError ''Please provide a valid response''])
       \<and> handleSubmit5 now s5 = (s5, [ToastError ''Please provide a valid response''])"
  using assms by (simp add: handleSubmit7_def handleSubmit5_def)

theorem invalid_submit_keeps_state_witness:
  "trim ''A'' \<noteq> [] \<and> \<not> validateResponse7 ''A'' 0
   \<and> trim ''99 years'' \<noteq> [] \<and> \<not> validateResponse5 ''99 years'' 3
   \<and> handleSubmit7 5000 (asked7\<lparr>currentInput := ''A''\<rparr>)
       = (asked7\<lparr>currentInput := ''A''\<rparr>, [ToastError ''Please provide a valid response''])
   \<and> handleSubmit5 5000 (asked5\<lparr>currentInput := ''99 years'', currentQuestionIndex := 3\<rparr>)
       = (asked5\<lparr>currentInput := ''99 years'', currentQuestionIndex := 3\<rparr>,
          [ToastError ''Please provide a valid response''])"
  using invalid_submit_keeps_state [of "asked7\<lparr>currentInput := ''A''\<rparr>"
      "asked5\<lparr>currentInput := ''99 years'', currentQuestionIndex := 3\<rparr>" 5000]
  by (simp add: validateResponse7_def validateResponse5_def asked7_def asked5_def idle7_def idle5_def
      appendQuestion7_def initializeChat7_def js_eval)

text \<open>
  Claim C4, as the code has it. The name slot accepts an input exactly when its trimmed form
  has at least two characters. So \<^verbatim>\<open>Al\<close> and \<^verbatim>\<open>Ana\<close> are both accepted, and submitting
  such an input appends the answer, stores the trimmed name, moves to question 1 and
  schedules it; a one-character input such as \<^verbatim>\<open>A\<close> is refused.
\<close>

theorem name_slot_min_length:
  assumes "2 \<le> length (trim inp)"
    and "currentInput s7 = inp" and "currentQuestionIndex s7 = 0"
    and "currentInput s5 = inp" and "currentQuestionIndex s5 = 0"
  shows "handleSubmit7 now s7 =
           (s7\<lparr>messages := messages s7 @
                  [\<lparr>msg_id = decimal now, msg_type = User, content = inp, timestamp = now,
                    questionIndex = Some 0\<rparr>],
                userData := (userData s7)\<lparr>name := Some (trim inp)\<rparr>,
                currentInput := [], showOptions := False, currentQuestionIndex := 1\<rparr>,
            [SetTimeout (AskQuestion 1) 500])
       \<and> handleSubmit5 now s5 =
           (s5\<lparr>messages := messages s5 @
                  [\<lparr>msg_id = decimal now, msg_type = User, content = inp, timestamp = now,
                    questionIndex = Some 0\<rparr>],
                userData := (userData s5)\<lparr>name5 := Some (trim inp)\<rparr>,
                currentInput := [], currentQuestionIndex := 1\<rparr>,
            [SetTimeout (AskQuestion 1) 500])
       \<and> validateResponse7 ''Al'' 0 \<and> validateResponse7 ''Ana'' 0 \<and> \<not> validateResponse7 ''A'' 0
       \<and> validateResponse5 ''Al'' 0 \<and> validateResponse5 ''Ana'' 0 \<and> \<not> validateResponse5 ''A'' 0
       \<and> (\<forall>r. validateResponse7 r 0 = (2 \<le> length (trim r)))
       \<and> (\<forall>r. validateResponse5 r 0 = (2 \<le> length (trim r)))"
proof -
  have v: "\<And>r. validateResponse7 r 0 = (2 \<le> length (trim r))"
      "\<And>r. validateResponse5 r 0 = (2 \<le> length (trim r))"
    by (simp_all add: validateResponse7_def validateResponse5_def)
  have t: "trim ''Al'' = ''Al''" "trim ''Ana'' = ''Ana''" "trim ''A'' = ''A''"
    by (simp_all add: js_eval)
  have nb: "trim inp \<noteq> []" using assms(1) by auto
  have h7: "handleSubmit7 now s7 =
           (s7\<lparr>messages := messages s7 @
                  [\<lparr>msg_id = decimal now, msg_type = User, content = inp, timestamp = now,
                    questionIndex = Some 0\<rparr>],
                userData := (userData s7)\<lparr>name := Some (trim inp)\<rparr>,
                currentInput := [], showOptions := False, currentQuestionIndex := 1\<rparr>,
            [SetTimeout (AskQuestion 1) 500])"
    using assms nb by (simp add: handleSubmit7_def v processResponse7_def questions7_def)
  have h5: "handleSubmit5 now s5 =
           (s5\<lparr>messages := messages s5 @
                  [\<lparr>msg_id = decimal now, msg_type = User, content = inp, timestamp = now,
                    questionIndex = Some 0\<rparr>],
                userData := (userData s5)\<lparr>name5 := Some (trim inp)\<rparr>,
                currentInput := [], currentQuestionIndex := 1\<rparr>,
            [SetTimeout (AskQuestion 1) 500])"
    using assms nb by (simp add: handleSubmit5_def v processResponse5_def questions5_def)
  show ?thesis using h7 h5 v t by simp
qed

theorem name_slot_min_length_witness:
  "2 \<le> length (trim ''Al'')
   \<and> handleSubmit7 5000 (asked7\<lparr>currentInput := ''Al''\<rparr>) =
       (asked7\<lparr>messages := messages asked7 @
                 [\<lparr>msg_id = ''5000'', msg_type = User, content = ''Al'', timestamp = 5000,
                   questionIndex = Some 0\<rparr>],
               userData := (userData asked7)\<lparr>name := Some ''Al''\<rparr>,
               currentInput := [], showOptions := False, currentQuestionIndex := 1\<rparr>,
        [SetTimeout (AskQuestion 1) 500])
   \<and> handleSubmit5 5000 (asked5\<lparr>currentInput := ''Al''\<rparr>) =
       (asked5\<lparr>messages := messages asked5 @
                 [\<lparr>msg_id = ''5000'', msg_type = User, content = ''Al'', timestamp = 5000,
                   questionIndex = Some 0\<rparr>],
               userData := (userData asked5)\<lparr>name5 := Some ''Al''\<rparr>,
               currentInput := [], currentQuestionIndex := 1\<rparr>,
        [SetTimeout (AskQuestion 1) 500])"
proof -
  have t: "trim ''Al'' = ''Al''" by (simp add: js_eval)
  have d: "decimal 5000 = ''5000''" by (simp add: decimal.simps digitChar_def)
  show ?thesis
    using name_slot_min_length [of "''Al''" "asked7\<lparr>currentInput := ''Al''\<rparr>"
        "asked5\<lparr>currentInput := ''Al''\<rparr>" 5000]
    by (simp add: t d asked7_def asked5_def idle7_def idle5_def appendQuestion7_def
        initializeChat7_def)
qed

text \<open>
  Claim C4 as stated fails: on both screens \<^verbatim>\<open>Al\<close> passes the validator of the name slot,
  and submitting it at question 0 moves the conversation to question 1.
\<close>

theorem name_Al_is_accepted:
  "validateResponse7 ''Al'' 0 \<and> validateResponse5 ''Al'' 0
   \<and> currentQuestionIndex (fst (handleSubmit7 5000 (asked7\<lparr>currentInput := ''Al''\<rparr>))) = 1
   \<and> currentQuestionIndex (fst (handleSubmit5 5000 (asked5\<lparr>currentInput := ''Al''\<rparr>))) = 1"
  by (simp add: handleSubmit7_def handleSubmit5_def validateResponse7_def validateResponse5_def
      asked7_def asked5_def idle5_def idle7_def appendQuestion7_def initializeChat7_def js_eval
      questions7_def questions5_def)

subsection \<open>Enumerated slots\<close>

text \<open>
  Claim C8, as the code has it. The certification slot and the proficiency slot accept an
  input exactly when its trimmed form is one of the options of the slot, compared character
  by character (so case matters and a prefix does not do), and the value committed is that
  trimmed form.
\<close>

theorem enum_slots_match_trimmed:
  "validateResponse7 inp 4 = (trim inp \<in> {''None'', ''Beginner'', ''Intermediate'', ''Professional''})
   \<and> validateResponse7 inp 5 = (trim inp \<in> {''Beginner'', ''Intermediate'', ''Professional''})
   \<and> certificationLevel (processResponse7 u inp 4) = Some (trim inp)
   \<and> proficiencyLevel (processResponse7 u inp 5) = Some (trim inp)
   \<and> \<not> validateResponse7 ''beginner'' 5 \<and> \<not> validateResponse7 ''none'' 4
   \<and> \<not> validateResponse7 ''Begin'' 5 \<and> \<not> validateResponse7 ''None'' 5"
  by (simp add: validateResponse7_def processResponse7_def proficiencyOptions_def
      certificationOptions_def js_eval)

text \<open>
  Claim C8 as stated fails: an option with white space around it is no member of the option
  set, and the validator accepts it.
\<close>

theorem enum_padded_is_accepted:
  "validateResponse7 ''Beginner '' 5 \<and> ''Beginner '' \<notin> set proficiencyOptions
   \<and> validateResponse7 '' None'' 4 \<and> '' None'' \<notin> set certificationOptions"
  by (simp add: validateResponse7_def js_eval proficiencyOptions_def certificationOptions_def)

subsection \<open>Editing a committed answer\<close>

text \<open>
  Claim C6. For a user message of the log with recorded slot \<open>i\<close>, saving a replacement
  text that is empty after trimming or that the validator of slot \<open>i\<close> refuses shows the
  error toast and changes nothing: the state returned, with its message log and its
  accumulator, is the state before the attempt.
\<close>

theorem invalid_edit_keeps_state:
  assumes "m \<in> set (messages s)" and "msg_type m = User" and "questionIndex m = Some i"
    and "trim (editValue s) = [] \<or> \<not> validateResponse7 (editValue s) i"
  shows "saveEdit7 (msg_id m) (questionIndex m) s
           = (s, [ToastError ''Please provide a valid response''])"
  using assms by (auto simp: saveEdit7_def)

theorem invalid_edit_keeps_state_witness:
  "answer7 \<in> set (messages (answered7\<lparr>editValue := ''A''\<rparr>))
   \<and> msg_type answer7 = User \<and> questionIndex answer7 = Some 0
   \<and> \<not> validateResponse7 ''A'' 0
   \<and> saveEdit7 ''5000'' (Some 0) (answered7\<lparr>editValue := ''A''\<rparr>)
       = (answered7\<lparr>editValue := ''A''\<rparr>, [ToastError ''Please provide a valid response''])"
  using invalid_edit_keeps_state [of answer7 "answered7\<lparr>editValue := ''A''\<rparr>" 0]
  by (simp add: answered7_eq answer7_def validateResponse7_def js_eval)

text \<open>
  Claim C5. Take a log whose message ids are pairwise different (the id is a unique token
  in the data model), a user message \<open>m\<close> of it with recorded slot \<open>i\<close> (a position of
  the question list) and a replacement text that passes the validator of slot \<open>i\<close>. Saving
  the edit succeeds; the log keeps its length and its ids in their positions; the entry
  \<open>m\<close> becomes \<open>m\<close> with the new text and every other entry stays as it was; slot \<open>i\<close> of
  the accumulator holds the value computed from the edited text alone, and every other
  slot keeps its value.
\<close>

theorem valid_edit_replaces_in_place:
  assumes "m \<in> set (messages s)" and "msg_type m = User" and "questionIndex m = Some i"
    and "i < length questions7"
    and "validateResponse7 (editValue s) i"
    and "distinct (map msg_id (messages s))"
  shows "\<exists>s'. saveEdit7 (msg_id m) (questionIndex m) s = (s', [ToastSuccess ''Response updated!''])
     \<and> length (messages s') = length (messages s)
     \<and> (\<forall>k < length (messages s).
           messages s' ! k =
             (if messages s ! k = m then m\<lparr>content := editValue s\<rparr> else messages s ! k))
     \<and> map msg_id (messages s') = map msg_id (messages s)
     \<and> userData s' = processResponse7 (userData s) (editValue s) i
     \<and> slot7 (userData s') i \<noteq> None
     \<and> slot7 (userData s') i = slot7 (processResponse7 u (editValue s) i) i
     \<and> (\<forall>j. j \<noteq> i \<longrightarrow> slot7 (userData s') j = slot7 (userData s) j)"
proof -
  from assms(4) have i7: "i < 7" by (simp add: questions7_def)
  have nb: "trim (editValue s) \<noteq> []" by (rule validateResponse7_nonblank [OF i7 assms(5)])
  let ?s' = "fst (saveEdit7 (msg_id m) (questionIndex m) s)"
  have run: "saveEdit7 (msg_id m) (questionIndex m) s = (?s', [ToastSuccess ''Response updated!''])"
    using nb assms(3,5) by (simp add: saveEdit7_def)
  have msgs: "messages ?s' =
      map (\<lambda>msg. if msg_id msg = msg_id m then msg\<lparr>content := editValue s\<rparr> else msg) (messages s)"
    using nb assms(3,5) by (simp add: saveEdit7_def)
  have ud: "userData ?s' = processResponse7 (userData s) (editValue s) i"
    using nb assms(3,5) by (simp add: saveEdit7_def)
  have nth: "\<forall>k < length (messages s).
      messages ?s' ! k =
        (if messages s ! k = m then m\<lparr>content := editValue s\<rparr> else messages s ! k)"
    using distinct_id_eq [OF assms(6) assms(1)] by (auto simp: msgs)
  have ids: "map msg_id (messages ?s') = map msg_id (messages s)"
    by (simp add: msgs o_def if_distrib cong: if_cong)
  show ?thesis
    using run msgs nth ids ud i7 slot7_processResponse7_other
      slot7_processResponse7_same [of i] slot7_processResponse7_defined [of i]
    by (intro exI [of _ ?s']) simp
qed

theorem valid_edit_replaces_in_place_witness:
  "answer7 \<in> set (messages (answered7\<lparr>editValue := ''Anna''\<rparr>))
   \<and> msg_type answer7 = User \<and> questionIndex answer7 = Some 0
   \<and> validateResponse7 ''Anna'' 0
   \<and> distinct (map msg_id (messages (answered7\<lparr>editValue := ''Anna''\<rparr>)))
   \<and> (\<exists>s'. saveEdit7 ''5000'' (Some 0) (answered7\<lparr>editValue := ''Anna''\<rparr>)
             = (s', [ToastSuccess ''Response updated!''])
        \<and> messages s' ! 2 = answer7\<lparr>content := ''Anna''\<rparr>
        \<and> messages s' ! 1 = messages answered7 ! 1
        \<and> messages s' ! 0 = messages answered7 ! 0
        \<and> length (messages s') = 3
        \<and> name (userData s') = Some ''Anna'')"
proof -
  let ?s = "answered7\<lparr>editValue := ''Anna''\<rparr>"
  have h: "answer7 \<in> set (messages ?s)" "msg_type answer7 = User" "questionIndex answer7 = Some 0"
      "0 < length questions7" "validateResponse7 (editValue ?s) 0"
      "distinct (map msg_id (messages ?s))"
    by (simp_all add: answered7_eq answer7_def validateResponse7_def js_eval questions7_def
        idle7_def initialMessage7_def)
  from valid_edit_replaces_in_place [OF h, of "userData idle7"] obtain s' where
    s': "saveEdit7 (msg_id answer7) (questionIndex answer7) ?s
           = (s', [ToastSuccess ''Response updated!''])"
      "length (messages s') = length (messages ?s)"
      "\<forall>k<length (messages ?s). messages s' ! k =
          (if messages ?s ! k = answer7 then answer7\<lparr>content := editValue ?s\<rparr>
           else messages ?s ! k)"
      "userData s' = processResponse7 (userData ?s) (editValue ?s) 0"
    by blast
  have "messages s' ! 2 = answer7\<lparr>content := ''Anna''\<rparr>"
      "messages s' ! 1 = messages answered7 ! 1" "messages s' ! 0 = messages answered7 ! 0"
    using s'(3) by (simp_all add: answered7_eq answer7_def initialMessage7_def)
  moreover have "length (messages s') = 3" using s'(2) by (simp add: answered7_eq)
  moreover have "name (userData s') = Some ''Anna''"
    using s'(4) by (simp add: processResponse7_def js_eval)
  ultimately show ?thesis using h s'(1) by (simp add: answer7_def)
qed

subsection \<open>Numeric slots\<close>

text \<open>
  Claim C1, as the code has it. The numeric slots are experience years (question 3 of the
  five-question screen, range 0 to 50), job level (question 3 of the seven-question
  screen, 1 to 9) and profile count (question 6 there, 1 to 5). An input typed at such a
  slot is judged by the integer that \<^verbatim>\<open>parseInt\<close> reads from its trimmed form. When the
  trimmed form is an optional sign, a row of decimal digits and then nothing or something
  that is no digit, that integer is the signed value of the digits, whatever follows them;
  when, after an optional sign, it does not begin with a digit, there is none. If there is
  no such integer or it lies outside the range, the validator refuses the input and the
  submit handler returns the state as it was: no message, the same question index, nothing
  new in the accumulator. Otherwise the input is accepted and the accumulator field of the
  slot holds that integer itself. So an integer written in decimal is accepted exactly when
  it lies in the range, and \<^verbatim>\<open>7abc\<close>, \<^verbatim>\<open>5.9\<close> and \<^verbatim>\<open>1e1\<close> are accepted and stored
  as 7, 5 and 1.
\<close>

theorem numeric_slots_reject_or_store:
  assumes "currentInput s5 = inp" and "currentQuestionIndex s5 = 3"
    and "currentInput s7 = inp" and "currentQuestionIndex s7 = 3"
    and "currentInput t7 = inp" and "currentQuestionIndex t7 = 6"
  shows
    "((\<nexists>n. parseInt (trim inp) = Num n \<and> 0 \<le> n \<and> n \<le> 50) \<longrightarrow>
        \<not> validateResponse5 inp 3 \<and> fst (handleSubmit5 now s5) = s5)
     \<and> (\<forall>n. parseInt (trim inp) = Num n \<and> 0 \<le> n \<and> n \<le> 50 \<longrightarrow>
        validateResponse5 inp 3
        \<and> yearsExperience5 (userData (fst (handleSubmit5 now s5))) = Some (Num n))
     \<and> ((\<nexists>n. parseInt (trim inp) = Num n \<and> 1 \<le> n \<and> n \<le> 9) \<longrightarrow>
        \<not> validateResponse7 inp 3 \<and> fst (handleSubmit7 now s7) = s7)
     \<and> (\<forall>n. parseInt (trim inp) = Num n \<and> 1 \<le> n \<and> n \<le> 9 \<longrightarrow>
        validateResponse7 inp 3
        \<and> jobLevel (userData (fst (handleSubmit7 now s7))) = Some (Num n))
     \<and> ((\<nexists>n. parseInt (trim inp) = Num n \<and> 1 \<le> n \<and> n \<le> 5) \<longrightarrow>
        \<not> validateResponse7 inp 6 \<and> fst (handleSubmit7 now t7) = t7)
     \<and> (\<forall>n. parseInt (trim inp) = Num n \<and> 1 \<le> n \<and> n \<le> 5 \<longrightarrow>
        validateResponse7 inp 6
        \<and> profileCount (userData (fst (handleSubmit7 now t7))) = Some (Num n))
     \<and> (\<forall>sg ds rest. numeralShape (trim inp) sg ds rest \<longrightarrow>
        parseInt (trim inp) = Num (signedValue sg ds))
     \<and> (noNumeral (trim inp) \<longrightarrow> parseInt (trim inp) = NaN)
     \<and> (isIntegerNumeral (trim inp) \<longrightarrow> (\<exists>sg ds. numeralShape (trim inp) sg ds []))
     \<and> (\<forall>k. validateResponse5 (decimal k) 3 = (k \<le> 50))
     \<and> (\<forall>k. validateResponse7 (decimal k) 3 = (1 \<le> k \<and> k \<le> 9))
     \<and> (\<forall>k. validateResponse7 (decimal k) 6 = (1 \<le> k \<and> k \<le> 5))
     \<and> validateResponse7 ''7abc'' 3 \<and> jobLevel (processResponse7 u7 ''7abc'' 3) = Some (Num 7)
     \<and> validateResponse7 ''5.9'' 6 \<and> profileCount (processResponse7 u7 ''5.9'' 6) = Some (Num 5)
     \<and> validateResponse7 ''1e1'' 3 \<and> jobLevel (processResponse7 u7 ''1e1'' 3) = Some (Num 1)"
proof -
  have a: "(\<nexists>n. parseInt (trim inp) = Num n \<and> 0 \<le> n \<and> n \<le> 50) \<longrightarrow>
        \<not> validateResponse5 inp 3 \<and> fst (handleSubmit5 now s5) = s5"
    using rejected5 [of s5 now] assms(1,2) by (simp add: numeric_valid5)
  have b: "\<forall>n. parseInt (trim inp) = Num n \<and> 0 \<le> n \<and> n \<le> 50 \<longrightarrow>
        validateResponse5 inp 3
        \<and> yearsExperience5 (userData (fst (handleSubmit5 now s5))) = Some (Num n)"
    using stored5 [of s5 now] assms(1,2) by (auto simp: numeric_valid5)
  have c: "(\<nexists>n. parseInt (trim inp) = Num n \<and> 1 \<le> n \<and> n \<le> 9) \<longrightarrow>
        \<not> validateResponse7 inp 3 \<and> fst (handleSubmit7 now s7) = s7"
    using rejected7 [of s7 now] assms(3,4) by (simp add: numeric_valid7_3)
  have d: "\<forall>n. parseInt (trim inp) = Num n \<and> 1 \<le> n \<and> n \<le> 9 \<longrightarrow>
        validateResponse7 inp 3
        \<and> jobLevel (userData (fst (handleSubmit7 now s7))) = Some (Num n)"
    using stored7_3 [of s7 now] assms(3,4) by (auto simp: numeric_valid7_3)
  have e: "(\<nexists>n. parseInt (trim inp) = Num n \<and> 1 \<le> n \<and> n \<le> 5) \<longrightarrow>
        \<not> validateResponse7 inp 6 \<and> fst (handleSubmit7 now t7) = t7"
    using rejected7 [of t7 now] assms(5,6) by (simp add: numeric_valid7_6)
  have f: "\<forall>n. parseInt (trim inp) = Num n \<and> 1 \<le> n \<and> n \<le> 5 \<longrightarrow>
        validateResponse7 inp 6
        \<and> profileCount (userData (fst (handleSubmit7 now t7))) = Some (Num n)"
    using stored7_6 [of t7 now] assms(5,6) by (auto simp: numeric_valid7_6)
  have g: "\<forall>k. validateResponse5 (decimal k) 3 = (k \<le> 50)"
      "\<forall>k. validateResponse7 (decimal k) 3 = (1 \<le> k \<and> k \<le> 9)"
      "\<forall>k. validateResponse7 (decimal k) 6 = (1 \<le> k \<and> k \<le> 5)"
    by (simp_all add: validateResponse5_def validateResponse7_def trim_decimal parseInt_decimal)
  have h: "\<forall>sg ds rest. numeralShape (trim inp) sg ds rest \<longrightarrow>
        parseInt (trim inp) = Num (signedValue sg ds)"
    by (simp add: parseInt_numeralShape)
  have i: "noNumeral (trim inp) \<longrightarrow> parseInt (trim inp) = NaN"
    using parseInt_noNumeral [OF trimStart_trim, of inp] by simp
  have j: "isIntegerNumeral (trim inp) \<longrightarrow> (\<exists>sg ds. numeralShape (trim inp) sg ds [])"
    by (simp add: integerNumeral_shape)
  have k: "validateResponse7 ''7abc'' 3 \<and> jobLevel (processResponse7 u7 ''7abc'' 3) = Some (Num 7)"
      "validateResponse7 ''5.9'' 6 \<and> profileCount (processResponse7 u7 ''5.9'' 6) = Some (Num 5)"
      "validateResponse7 ''1e1'' 3 \<and> jobLevel (processResponse7 u7 ''1e1'' 3) = Some (Num 1)"
    by (simp_all add: validateResponse7_def processResponse7_def js_eval)
  show ?thesis
    by (intro conjI a b c d e f h i j g k [THEN conjunct1] k [THEN conjunct2])
qed

theorem numeric_slots_reject_or_store_witness:
  "parseInt (trim ''51'') = Num 51 \<and> parseInt (trim '' 5 '') = Num 5
   \<and> \<not> validateResponse5 ''51'' 3
   \<and> fst (handleSubmit5 5000 (asked5\<lparr>currentInput := ''51'', currentQuestionIndex := 3\<rparr>))
       = asked5\<lparr>currentInput := ''51'', currentQuestionIndex := 3\<rparr>
   \<and> \<not> validateResponse7 ''51'' 3
   \<and> fst (handleSubmit7 5000 (asked7\<lparr>currentInput := ''51'', currentQuestionIndex := 3\<rparr>))
       = asked7\<lparr>currentInput := ''51'', currentQuestionIndex := 3\<rparr>
   \<and> \<not> validateResponse7 ''51'' 6
   \<and> fst (handleSubmit7 5000 (asked7\<lparr>currentInput := ''51'', currentQuestionIndex := 6\<rparr>))
       = asked7\<lparr>currentInput := ''51'', currentQuestionIndex := 6\<rparr>
   \<and> validateResponse5 '' 5 '' 3
   \<and> yearsExperience5 (userData (fst (handleSubmit5 5000
         (asked5\<lparr>currentInput := '' 5 '', currentQuestionIndex := 3\<rparr>)))) = Some (Num 5)
   \<and> validateResponse7 '' 5 '' 3
   \<and> jobLevel (userData (fst (handleSubmit7 5000
         (asked7\<lparr>currentInput := '' 5 '', currentQuestionIndex := 3\<rparr>)))) = Some (Num 5)
   \<and> validateResponse7 '' 5 '' 6
   \<and> profileCount (userData (fst (handleSubmit7 5000
         (asked7\<lparr>currentInput := '' 5 '', currentQuestionIndex := 6\<rparr>)))) = Some (Num 5)
   \<and> isIntegerNumeral (trim '' 5 '') \<and> numeralShape (trim '' 5 '') [] ''5'' []
   \<and> numeralShape (trim ''7abc'') [] ''7'' ''abc'' \<and> parseInt (trim ''7abc'') = Num 7
   \<and> jobLevel (userData (fst (handleSubmit7 5000
         (asked7\<lparr>currentInput := ''7abc'', currentQuestionIndex := 3\<rparr>)))) = Some (Num 7)
   \<and> noNumeral (trim ''abc'') \<and> parseInt (trim ''abc'') = NaN
   \<and> fst (handleSubmit7 5000 (asked7\<lparr>currentInput := ''abc'', currentQuestionIndex := 3\<rparr>))
       = asked7\<lparr>currentInput := ''abc'', currentQuestionIndex := 3\<rparr>"
proof -
  have p: "parseInt (trim ''51'') = Num 51" "parseInt (trim '' 5 '') = Num 5"
    by (simp_all add: js_eval)
  have t: "trim ''7abc'' = ''7abc''" "trim ''abc'' = ''abc''" "trim '' 5 '' = ''5''"
    by (simp_all add: js_eval)
  have sh: "numeralShape (trim ''7abc'') [] ''7'' ''abc''" "noNumeral (trim ''abc'')"
      "isIntegerNumeral (trim '' 5 '')" "numeralShape (trim '' 5 '') [] ''5'' []"
    by (simp_all add: t numeralShape_def noNumeral_def isIntegerNumeral_def isDecimalDigit_def)
  note A = numeric_slots_reject_or_store
      [of "asked5\<lparr>currentInput := ''51'', currentQuestionIndex := 3\<rparr>"
        "''51''" "asked7\<lparr>currentInput := ''51'', currentQuestionIndex := 3\<rparr>"
        "asked7\<lparr>currentInput := ''51'', currentQuestionIndex := 6\<rparr>" 5000]
  note B = numeric_slots_reject_or_store
      [of "asked5\<lparr>currentInput := '' 5 '', currentQuestionIndex := 3\<rparr>"
        "'' 5 ''" "asked7\<lparr>currentInput := '' 5 '', currentQuestionIndex := 3\<rparr>"
        "asked7\<lparr>currentInput := '' 5 '', currentQuestionIndex := 6\<rparr>" 5000]
  note C = numeric_slots_reject_or_store
      [of "asked5\<lparr>currentInput := ''7abc'', currentQuestionIndex := 3\<rparr>"
        "''7abc''" "asked7\<lparr>currentInput := ''7abc'', currentQuestionIndex := 3\<rparr>"
        "asked7\<lparr>currentInput := ''7abc'', currentQuestionIndex := 6\<rparr>" 5000]
  note D = numeric_slots_reject_or_store
      [of "asked5\<lparr>currentInput := ''abc'', currentQuestionIndex := 3\<rparr>"
        "''abc''" "asked7\<lparr>currentInput := ''abc'', currentQuestionIndex := 3\<rparr>"
        "asked7\<lparr>currentInput := ''abc'', currentQuestionIndex := 6\<rparr>" 5000]
  have v: "signedValue [] ''7'' = 7" by (simp add: signedValue_def)
  from C have C1: "\<forall>sg ds rest. numeralShape (trim ''7abc'') sg ds rest \<longrightarrow>
        parseInt (trim ''7abc'') = Num (signedValue sg ds)"
    and C2: "\<forall>n. parseInt (trim ''7abc'') = Num n \<and> 1 \<le> n \<and> n \<le> 9 \<longrightarrow>
        validateResponse7 ''7abc'' 3
        \<and> jobLevel (userData (fst (handleSubmit7 5000
             (asked7\<lparr>currentInput := ''7abc'', currentQuestionIndex := 3\<rparr>)))) = Some (Num n)"
    by simp_all
  from D have D1: "noNumeral (trim ''abc'') \<longrightarrow> parseInt (trim ''abc'') = NaN"
    and D2: "(\<nexists>n. parseInt (trim ''abc'') = Num n \<and> 1 \<le> n \<and> n \<le> 9) \<longrightarrow>
        \<not> validateResponse7 ''abc'' 3
        \<and> fst (handleSubmit7 5000 (asked7\<lparr>currentInput := ''abc'', currentQuestionIndex := 3\<rparr>))
            = asked7\<lparr>currentInput := ''abc'', currentQuestionIndex := 3\<rparr>"
    by simp_all
  have p7: "parseInt (trim ''7abc'') = Num 7" using C1 sh(1) v by metis
  have pa: "parseInt (trim ''abc'') = NaN" using D1 sh(2) by blast
  have s7: "jobLevel (userData (fst (handleSubmit7 5000
         (asked7\<lparr>currentInput := ''7abc'', currentQuestionIndex := 3\<rparr>)))) = Some (Num 7)"
    using C2 p7 by simp
  have ra: "fst (handleSubmit7 5000 (asked7\<lparr>currentInput := ''abc'', currentQuestionIndex := 3\<rparr>))
       = asked7\<lparr>currentInput := ''abc'', currentQuestionIndex := 3\<rparr>"
    using D2 pa by simp
  have old: "\<not> validateResponse5 ''51'' 3
   \<and> fst (handleSubmit5 5000 (asked5\<lparr>currentInput := ''51'', currentQuestionIndex := 3\<rparr>))
       = asked5\<lparr>currentInput := ''51'', currentQuestionIndex := 3\<rparr>
   \<and> \<not> validateResponse7 ''51'' 3
   \<and> fst (handleSubmit7 5000 (asked7\<lparr>currentInput := ''51'', currentQuestionIndex := 3\<rparr>))
       = asked7\<lparr>currentInput := ''51'', currentQuestionIndex := 3\<rparr>
   \<and> \<not> validateResponse7 ''51'' 6
   \<and> fst (handleSubmit7 5000 (asked7\<lparr>currentInput := ''51'', currentQuestionIndex := 6\<rparr>))
       = asked7\<lparr>currentInput := ''51'', currentQuestionIndex := 6\<rparr>
   \<and> validateResponse5 '' 5 '' 3
   \<and> yearsExperience5 (userData (fst (handleSubmit5 5000
         (asked5\<lparr>currentInput := '' 5 '', currentQuestionIndex := 3\<rparr>)))) = Some (Num 5)
   \<and> validateResponse7 '' 5 '' 3
   \<and> jobLevel (userData (fst (handleSubmit7 5000
         (asked7\<lparr>currentInput := '' 5 '', currentQuestionIndex := 3\<rparr>)))) = Some (Num 5)
   \<and> validateResponse7 '' 5 '' 6
   \<and> profileCount (userData (fst (handleSubmit7 5000
         (asked7\<lparr>currentInput := '' 5 '', currentQuestionIndex := 6\<rparr>)))) = Some (Num 5)"
    using A B by (simp add: p)
  show ?thesis using old p sh p7 pa s7 ra by simp
qed

text \<open>
  Claim C1 as stated fails: \<^verbatim>\<open>5.9\<close>, \<^verbatim>\<open>7abc\<close> and \<^verbatim>\<open>50.9\<close> are no integers, and
  5.9 and 50.9 lie outside the ranges 1 to 5 and 0 to 50; yet each is accepted at its
  slot, a message is appended, and the value stored is 5, 7 and 50.
\<close>

theorem numeric_slot_accepts_non_integer:
  "\<not> isIntegerNumeral (trim ''5.9'') \<and> validateResponse7 ''5.9'' 6
   \<and> profileCount (userData (fst (handleSubmit7 5000
         (asked7\<lparr>currentInput := ''5.9'', currentQuestionIndex := 6\<rparr>)))) = Some (Num 5)
   \<and> length (messages (fst (handleSubmit7 5000
         (asked7\<lparr>currentInput := ''5.9'', currentQuestionIndex := 6\<rparr>))))
       = length (messages asked7) + 1
   \<and> \<not> isIntegerNumeral (trim ''7abc'') \<and> validateResponse7 ''7abc'' 3
   \<and> jobLevel (userData (fst (handleSubmit7 5000
         (asked7\<lparr>currentInput := ''7abc'', currentQuestionIndex := 3\<rparr>)))) = Some (Num 7)
   \<and> currentQuestionIndex (fst (handleSubmit7 5000
         (asked7\<lparr>currentInput := ''7abc'', currentQuestionIndex := 3\<rparr>))) = 4
   \<and> \<not> isIntegerNumeral (trim ''50.9'') \<and> validateResponse5 ''50.9'' 3
   \<and> yearsExperience5 (userData (fst (handleSubmit5 5000
         (asked5\<lparr>currentInput := ''50.9'', currentQuestionIndex := 3\<rparr>)))) = Some (Num 50)
   \<and> currentQuestionIndex (fst (handleSubmit5 5000
         (asked5\<lparr>currentInput := ''50.9'', currentQuestionIndex := 3\<rparr>))) = 4"
  by (simp add: isIntegerNumeral_def isDecimalDigit_def handleSubmit7_def handleSubmit5_def
      validateResponse7_def validateResponse5_def processResponse7_def processResponse5_def
      submitUserData7_start_def questions7_def questions5_def asked7_def asked5_def idle7_def
      idle5_def appendQuestion7_def initializeChat7_def js_eval Let_def)

subsection \<open>The skills slot\<close>

text \<open>
  Claim C9. At the skills slot (question 2 of the seven-question screen, question 1 of the
  five-question screen) an input is accepted when it is not empty after trimming. Let the
  input, split on commas, be \<open>parts\<close>: comma-free pieces that, joined with commas, give
  the input. Then submitting the input stores in the skills field the trimmed pieces that
  are not empty, in their order. The input \<^verbatim>\<open>React, Go\<close> is stored as the list of
  \<^verbatim>\<open>React\<close> and \<^verbatim>\<open>Go\<close>.
\<close>

theorem skills_commit_split_trim:
  assumes "trim inp \<noteq> []"
    and "parts \<noteq> []" and "\<forall>p\<in>set parts. CHR '','' \<notin> set p" and "join CHR '','' parts = inp"
    and "currentInput s7 = inp" and "currentQuestionIndex s7 = 2"
    and "currentInput s5 = inp" and "currentQuestionIndex s5 = 1"
  shows "validateResponse7 inp 2 \<and> validateResponse5 inp 1
     \<and> skills (userData (fst (handleSubmit7 now s7)))
         = Some (filter (\<lambda>p. p \<noteq> []) (map trim parts))
     \<and> skills5 (userData (fst (handleSubmit5 now s5)))
         = Some (filter (\<lambda>p. p \<noteq> []) (map trim parts))
     \<and> skills (processResponse7 u7 ''React, Go'' 2) = Some [''React'', ''Go'']
     \<and> skills5 (processResponse5 u5 ''React, Go'' 1) = Some [''React'', ''Go'']"
proof -
  have sp: "split CHR '','' inp = parts"
    using split_join [OF assms(2,3)] assms(4) by simp
  have ex: "skills (processResponse7 u7 ''React, Go'' 2) = Some [''React'', ''Go'']"
      "skills5 (processResponse5 u5 ''React, Go'' 1) = Some [''React'', ''Go'']"
    by (simp_all add: processResponse7_def processResponse5_def js_eval)
  show ?thesis
    using skills_stored7 [of s7 now] skills_stored5 [of s5 now] assms(1,5-8) sp ex
    by (simp add: skills_valid7 skills_valid5)
qed

theorem skills_commit_split_trim_witness:
  "trim ''React, Go'' \<noteq> []
   \<and> join CHR '','' [''React'', '' Go''] = ''React, Go''
   \<and> CHR '','' \<notin> set ''React'' \<and> CHR '','' \<notin> set '' Go''
   \<and> validateResponse7 ''React, Go'' 2 \<and> validateResponse5 ''React, Go'' 1
   \<and> skills (userData (fst (handleSubmit7 5000
         (asked7\<lparr>currentInput := ''React, Go'', currentQuestionIndex := 2\<rparr>))))
       = Some [''React'', ''Go'']
   \<and> skills5 (userData (fst (handleSubmit5 5000
         (asked5\<lparr>currentInput := ''React, Go'', currentQuestionIndex := 1\<rparr>))))
       = Some [''React'', ''Go'']"
proof -
  have t: "trim ''React, Go'' = ''React, Go''" "trim ''React'' = ''React''" "trim '' Go'' = ''Go''"
    by (simp_all add: js_eval)
  show ?thesis
    using skills_commit_split_trim [of "''React, Go''" "[''React'', '' Go'']"
        "asked7\<lparr>currentInput := ''React, Go'', currentQuestionIndex := 2\<rparr>"
        "asked5\<lparr>currentInput := ''React, Go'', currentQuestionIndex := 1\<rparr>" 5000]
    by (simp add: t)
qed

subsection \<open>Submission\<close>

text \<open>
  Claim C2. Let the last question of the seven-question screen be answered with a valid
  profile count, so that the handler posts the accumulator to the backend, and let that
  call fail: the \<^verbatim>\<open>fetch\<close> is rejected, or the response is not 2xx. Then, with \<open>n\<close>
  the count that was typed (1 to 5), whatever the state is when the call has settled: the
  matches become the first \<open>n\<close> entries of the list of five sample profiles, one bot
  message is appended that cites \<open>n\<close> matches, the success toast is shown, and the only
  other effects are two console lines and the pause of 2000 ms; no error toast.
\<close>

theorem fallback_on_backend_failure:
  assumes "currentQuestionIndex s = 6" and "validateResponse7 (currentInput s) 6"
    and "outcome = NetworkError \<or> outcome = Response False body"
  shows "\<exists>n s1 data. 1 \<le> n \<and> n \<le> 5 \<and> parseInt (trim (currentInput s)) = Num (int n)
     \<and> handleSubmit7 now s = (s1, [FetchPost data])
     \<and> profileCount data = Some (Num (int n))
     \<and> (\<forall>t now'. submitUserData7_settle data outcome now' t =
         (t\<lparr>matches := Profiles (take n mockProfiles7),
            messages := messages t @
              [\<lparr>msg_id = decimal now', msg_type = Bot,
                content = ''Perfect! Based on your profile, I found '' @ decimal n @
                  '' potential matches. Here are professionals who might be great connections for you:'',
                timestamp = now', questionIndex = None\<rparr>],
            isLoading := False\<rparr>,
          [ConsoleError ''Error submitting profile data:'',
           ConsoleWarn ''Backend not available, using mock data:'',
           SetTimeout ResumeSubmit 2000,
           ToastSuccess ''Profile matches found!'']))
     \<and> length (take n mockProfiles7) = n \<and> length mockProfiles7 = 5"
proof -
  from assms(2) obtain k where k: "parseInt (trim (currentInput s)) = Num k" "1 \<le> k" "k \<le> 5"
    by (auto simp: validateResponse7_def split: number.splits)
  define n where "n = nat k"
  have kn: "k = int n" "1 \<le> n" "n \<le> 5" using k by (simp_all add: n_def)
  let ?data = "(userData s)\<lparr>profileCount := Some (Num (int n))\<rparr>"
  have sl: "slice0 mockProfiles7 (profileCount ?data) = take n mockProfiles7"
    using kn slice0_in_range [of "int n" mockProfiles7] by (simp add: length_mockProfiles7)
  have f: "outcome = NetworkError \<or> outcome = Response False body \<or> outcome = Response True None"
    using assms(3) by blast
  have st: "submitUserData7_settle ?data outcome now' t =
         (t\<lparr>matches := Profiles (take n mockProfiles7),
            messages := messages t @ [successMessage7 now' n],
            isLoading := False\<rparr>,
          [ConsoleError ''Error submitting profile data:'',
           ConsoleWarn ''Backend not available, using mock data:'',
           SetTimeout ResumeSubmit 2000,
           ToastSuccess ''Profile matches found!''])" for now' t
    using settle_fallback [OF f, of ?data now' t] kn
    by (simp only: sl) (simp add: length_mockProfiles7)
  show ?thesis
    using last_submit7 [OF assms(1,2), of now] k kn st
    by (auto simp: successMessage7_def length_mockProfiles7 intro!: exI [of _ n])
qed

theorem fallback_on_backend_failure_witness:
  "currentQuestionIndex lastQuestion7 = 6 \<and> validateResponse7 (currentInput lastQuestion7) 6
   \<and> (\<exists>s1 data. handleSubmit7 5000 lastQuestion7 = (s1, [FetchPost data])
        \<and> profileCount data = Some (Num 2)
        \<and> matches (fst (submitUserData7_settle data (Response False None) 9000 s1))
            = Profiles [mockProfiles7 ! 0, mockProfiles7 ! 1]
        \<and> content (last (messages (fst (submitUserData7_settle data (Response False None) 9000 s1))))
            = ''Perfect! Based on your profile, I found 2 potential matches. Here are professionals who might be great connections for you:''
        \<and> snd (submitUserData7_settle data (Response False None) 9000 s1) =
            [ConsoleError ''Error submitting profile data:'',
             ConsoleWarn ''Backend not available, using mock data:'',
             SetTimeout ResumeSubmit 2000,
             ToastSuccess ''Profile matches found!''])"
proof -
  have v: "currentQuestionIndex lastQuestion7 = 6" "validateResponse7 (currentInput lastQuestion7) 6"
    by (simp_all add: lastQuestion7_def validateResponse7_def js_eval)
  have p: "parseInt (trim (currentInput lastQuestion7)) = Num 2"
    by (simp add: lastQuestion7_def js_eval)
  have o: "Response False None = NetworkError \<or> Response False None = Response False None"
    by simp
  from fallback_on_backend_failure [OF v o, of 5000] obtain n s1 data where
    h: "parseInt (trim (currentInput lastQuestion7)) = Num (int n)"
      "handleSubmit7 5000 lastQuestion7 = (s1, [FetchPost data])"
      "profileCount data = Some (Num (int n))"
      "\<And>t now'. submitUserData7_settle data (Response False None) now' t =
         (t\<lparr>matches := Profiles (take n mockProfiles7),
            messages := messages t @
              [\<lparr>msg_id = decimal now', msg_type = Bot,
                content = ''Perfect! Based on your profile, I found '' @ decimal n @
                  '' potential matches. Here are professionals who might be great connections for you:'',
                timestamp = now', questionIndex = None\<rparr>],
            isLoading := False\<rparr>,
          [ConsoleError ''Error submitting profile data:'',
           ConsoleWarn ''Backend not available, using mock data:'',
           SetTimeout ResumeSubmit 2000,
           ToastSuccess ''Profile matches found!''])"
    by blast
  from h(1) p have n: "n = 2" by simp
  have tk: "take 2 mockProfiles7 = [mockProfiles7 ! 0, mockProfiles7 ! 1]"
    by (simp add: mockProfiles7_def)
  have d: "decimal 2 = ''2''" by (simp add: decimal.simps digitChar_def)
  show ?thesis using v h(2,3) h(4) [of 9000 s1] n tk d by auto
qed




end
